theory Spec2Isabelle
  imports Complex_Main "HOL-Library.Word"
begin

unbundle bit_operations_syntax

section \<open>Conventions of the embedding\<close>

text \<open>
  The program is JavaScript.  A JavaScript string is a sequence of UTF-16 code units; it is
  modelled as a list of natural numbers (\<open>jsstring\<close>), one per code unit, so that
  \<open>charCodeAt\<close> and \<open>String.fromCharCode\<close> are the identity on the elements.
  A value that may be \<open>undefined\<close> is an \<open>option\<close>.  The bitwise operators of
  JavaScript work on 32-bit integers: their operands are \<open>32 word\<close>s, read back as
  signed numbers with \<open>sint\<close>.  The other numbers (coordinates, measurements) are real
  numbers.  A \<open>throw\<close> is the \<open>Inl\<close> branch of a sum.
\<close>

type_synonym jsstring = "nat list"

text \<open>
  The numbers of JavaScript are IEEE 754 doubles.  In the weather samples and in the
  waypoint timings, a product, a quotient or a sum of numbers that need not be integers is
  rounded by the machine, and \<open>Math.round\<close> or a comparison may follow: there the
  operations are the fields of the parameter \<open>ar\<close>, so that every statement holds of the
  operations of doubles.  \<open>js_times\<close>, \<open>js_divide\<close> and \<open>js_plus\<close> are the product, the
  quotient and the sum of two numbers; \<open>js_3_6\<close> is the number that the literal \<open>3.6\<close>
  denotes.  The values themselves stay real numbers (every finite double is one); NaN and
  the infinities are not modelled.
\<close>

record js_arith =
  js_times :: "real \<Rightarrow> real \<Rightarrow> real"
  js_divide :: "real \<Rightarrow> real \<Rightarrow> real"
  js_plus :: "real \<Rightarrow> real \<Rightarrow> real"
  js_3_6 :: real

text \<open>
  The exact operations.  The operations of doubles agree with them whenever the exact
  result is a double, as it is in the examples of this theory up to the rounding of
  \<open>Math.round\<close>.
\<close>

definition exactArith :: js_arith where
  "exactArith =
     \<lparr>js_times = (\<lambda>x y. x * y), js_divide = (\<lambda>x y. x / y), js_plus = (\<lambda>x y. x + y),
      js_3_6 = 36 / 10\<rparr>"

definition js_str :: "string \<Rightarrow> jsstring" where
  "js_str s = map of_char s"

text \<open>\<open>xs[i]\<close> of JavaScript: \<open>undefined\<close> outside the array.\<close>

definition js_nth :: "'a list \<Rightarrow> nat \<Rightarrow> 'a option" where
  "js_nth xs i = (if i < length xs then Some (xs ! i) else None)"

text \<open>ToInt32 of a possibly undefined 32-bit integer: \<open>undefined\<close> becomes 0.\<close>

definition toInt32 :: "32 word option \<Rightarrow> 32 word" where
  "toInt32 v = (case v of None \<Rightarrow> 0 | Some w \<Rightarrow> w)"

section \<open>FlexPolylineDecoder (src/unnamed/part_000)\<close>

datatype decode_error = InvalidEncoding | InvalidFormatVersion | PrematureEnding

text \<open>The table of \<open>decodeChar\<close>, one list per line of the source.\<close>

definition DECODING_TABLE :: "int list" where
  "DECODING_TABLE =
    [62, -1, -1, 52, 53, 54, 55, 56, 57, 58, 59, 60, 61, -1, -1, -1, -1, -1, -1, -1] @
    [0, 1, 2, 3, 4, 5, 6, 7, 8, 9, 10, 11, 12, 13, 14, 15, 16, 17, 18, 19, 20, 21] @
    [22, 23, 24, 25, -1, -1, -1, -1, 63, -1, 26, 27, 28, 29, 30, 31, 32, 33, 34, 35] @
    [36, 37, 38, 39, 40, 41, 42, 43, 44, 45, 46, 47, 48, 49, 50, 51]"

text \<open>
  \<open>decodeChar\<close>: \<open>DECODING_TABLE[charCode - 45]\<close>.  A code unit below 45 or above 122
  indexes outside the table and yields \<open>undefined\<close> (\<open>None\<close>).
\<close>

definition decodeChar :: "nat \<Rightarrow> 32 word option" where
  "decodeChar charCode =
     (if 45 \<le> charCode \<and> charCode - 45 < length DECODING_TABLE
      then Some (word_of_int (DECODING_TABLE ! (charCode - 45)))
      else None)"

text \<open>
  The state of the \<open>forEach\<close> loop of \<open>decodeUnsignedValues\<close>: the accumulator
  \<open>result\<close> (a 32-bit integer, because \<open>|=\<close> assigns it), the counter \<open>shift\<close>
  (a number that only grows by 5, never truncated) and the list \<open>resList\<close>.
\<close>

record varint_state =
  result :: "32 word"
  shift :: nat
  resList :: "32 word list"

text \<open>The continuation test of the loop body, \<open>(value & 0x20) === 0\<close> negated.\<close>

definition continues :: "32 word option \<Rightarrow> bool" where
  "continues v = (toInt32 v AND 0x20 \<noteq> 0)"

text \<open>
  One iteration of the loop body.  The shift count of \<open><<\<close> is taken modulo 32, as
  JavaScript does.
\<close>

definition decodeStep :: "varint_state \<Rightarrow> nat \<Rightarrow> varint_state" where
  "decodeStep st charCode =
     (let v = decodeChar charCode;
          r = result st OR push_bit (shift st mod 32) (toInt32 v AND 0x1F)
      in if \<not> continues v
         then \<lparr>result = 0, shift = 0, resList = resList st @ [r]\<rparr>
         else \<lparr>result = r, shift = shift st + 5, resList = resList st\<rparr>)"

definition decodeLoop :: "jsstring \<Rightarrow> varint_state" where
  "decodeLoop encoded = foldl decodeStep \<lparr>result = 0, shift = 0, resList = []\<rparr> encoded"

definition decodeUnsignedValues :: "jsstring \<Rightarrow> decode_error + 32 word list" where
  "decodeUnsignedValues encoded =
     (let st = decodeLoop encoded
      in if shift st > 0 then Inl InvalidEncoding else Inr (resList st))"

record header =
  precision :: nat
  thirdDim :: nat
  thirdDimPrecision :: nat

text \<open>
  \<open>decodeHeader(version, encodedHeader)\<close>.  Both arguments are array reads and may be
  \<open>undefined\<close>; \<open>undefined !== 1\<close> holds, and \<open>undefined & 15\<close> is 0.  \<open>>>\<close> is the
  arithmetic shift.  \<open>headerFields\<close> is the part after the version test.
\<close>

definition headerFields :: "32 word option \<Rightarrow> header" where
  "headerFields encodedHeader =
     (let headerNumber = toInt32 encodedHeader
      in \<lparr>precision = unat (headerNumber AND 15),
          thirdDim = unat (signed_drop_bit 4 headerNumber AND 7),
          thirdDimPrecision = unat (signed_drop_bit 7 headerNumber AND 15)\<rparr>)"

definition decodeHeader :: "32 word option \<Rightarrow> 32 word option \<Rightarrow> decode_error + header" where
  "decodeHeader version encodedHeader =
     (if version \<noteq> Some 1 then Inl InvalidFormatVersion
      else Inr (headerFields encodedHeader))"

text \<open>
  \<open>toSigned\<close>: complement when the low bit is set, then arithmetic shift right by one.
  The result is a JavaScript number, here the signed reading of the 32-bit value.
\<close>

definition toSigned :: "32 word option \<Rightarrow> int" where
  "toSigned val =
     (let res = toInt32 val;
          res' = (if res AND 1 \<noteq> 0 then NOT res else res)
      in sint (signed_drop_bit 1 res'))"

text \<open>
  The \<open>for\<close> loop of \<open>decodePolyline\<close>, from index \<open>i\<close> with the running sums
  \<open>lastLat\<close>, \<open>lastLng\<close>, \<open>lastZ\<close> and the coordinates pushed so far.  A coordinate is
  the array \<open>[lat, lng]\<close> or \<open>[lat, lng, z]\<close>.  It returns the final index with the list.
\<close>

function polylineLoop ::
  "32 word list \<Rightarrow> header \<Rightarrow> nat \<Rightarrow> int \<Rightarrow> int \<Rightarrow> int \<Rightarrow> real list list \<Rightarrow> nat \<times> real list list"
where
  "polylineLoop decoder h i lastLat lastLng lastZ res =
     (if i < length decoder then
        (let factorDegree = 10 ^ precision h;
             factorZ = 10 ^ thirdDimPrecision h;
             lastLat' = lastLat + toSigned (js_nth decoder i);
             lastLng' = lastLng + toSigned (js_nth decoder (i + 1))
         in if thirdDim h \<noteq> 0 then
              (let lastZ' = lastZ + toSigned (js_nth decoder (i + 2))
               in polylineLoop decoder h (i + 3) lastLat' lastLng' lastZ'
                    (res @ [[of_int lastLat' / factorDegree, of_int lastLng' / factorDegree,
                             of_int lastZ' / factorZ]]))
            else polylineLoop decoder h (i + 2) lastLat' lastLng' lastZ
                   (res @ [[of_int lastLat' / factorDegree, of_int lastLng' / factorDegree]]))
      else (i, res))"
  by pat_completeness auto
termination
  by (relation "measure (\<lambda>(decoder, h, i, _). length decoder - i)") auto

declare polylineLoop.simps [simp del]

definition decodePolyline :: "jsstring \<Rightarrow> decode_error + real list list" where
  "decodePolyline encoded =
     (case decodeUnsignedValues encoded of
        Inl e \<Rightarrow> Inl e
      | Inr decoder \<Rightarrow>
          (case decodeHeader (js_nth decoder 0) (js_nth decoder 1) of
             Inl e \<Rightarrow> Inl e
           | Inr h \<Rightarrow>
               (case polylineLoop decoder h 2 0 0 0 [] of
                  (i, res) \<Rightarrow> if i \<noteq> length decoder then Inl PrematureEnding else Inr res)))"

section \<open>The manual encoder of APIManager (src/unnamed/part_004)\<close>

text \<open>\<open>Math.round\<close>: the nearest integer, a half rounded towards plus infinity.\<close>

definition Math_round :: "real \<Rightarrow> int" where
  "Math_round x = \<lfloor>x + 1 / 2\<rfloor>"

text \<open>\<open>String.fromCharCode\<close> of one number: the number modulo \<open>2^16\<close>.\<close>

definition fromCharCode :: "int \<Rightarrow> nat" where
  "fromCharCode n = nat (n mod 65536)"

lemma unat_drop5: "unat (drop_bit 5 (w :: 32 word)) = unat w div 32"
  by (subst unat_drop_bit_eq) (simp add: drop_bit_eq_div)

lemma unat_drop5_less:
  assumes "32 \<le> v"
  shows "unat (drop_bit 5 (word_of_int v :: 32 word)) < nat v"
proof -
  have "uint (word_of_int v :: 32 word) \<le> v"
    using assms by (simp add: uint_word_of_int zmod_le_nonneg_dividend)
  then have "unat (word_of_int v :: 32 word) \<le> nat v"
    unfolding unat_eq_nat_uint by (rule nat_mono)
  then have "unat (word_of_int v :: 32 word) div 32 < nat v"
    using assms by linarith
  then show ?thesis by (simp only: unat_drop5)
qed

text \<open>
  \<open>encodeUnsignedVarintHERE\<close>.  In \<open>(value & 0x1F) | 0x20 + 63\<close> the sum binds tighter
  than \<open>|\<close>, so the character code is \<open>(value & 0x1F) | 95\<close>.  \<open>>>>=\<close> is the unsigned
  shift of the 32-bit value.
\<close>

function encodeUnsignedVarintHERE :: "int \<Rightarrow> jsstring" where
  "encodeUnsignedVarintHERE v =
     (if v \<ge> 32
      then fromCharCode (sint (((word_of_int v :: 32 word) AND 0x1F) OR (0x20 + 63)))
           # encodeUnsignedVarintHERE (uint (drop_bit 5 (word_of_int v :: 32 word)))
      else [fromCharCode (v + 63)])"
  by pat_completeness auto
termination
proof (relation "measure nat")
  show "wf (measure nat)" by simp
next
  fix v :: int
  assume "32 \<le> v"
  then show "(uint (drop_bit 5 (word_of_int v :: 32 word)), v) \<in> measure nat"
    using unat_drop5_less [of v] by (simp only: in_measure unat_eq_nat_uint)
qed

declare encodeUnsignedVarintHERE.simps [simp del]

text \<open>\<open>encodeSignedVarintHERE\<close>: \<open>value < 0 ? ((-value - 1) << 1) | 1 : value << 1\<close>.\<close>

definition encodeSignedVarintHERE :: "int \<Rightarrow> jsstring" where
  "encodeSignedVarintHERE v =
     encodeUnsignedVarintHERE
       (if v < 0 then sint (push_bit 1 (word_of_int (- v - 1) :: 32 word) OR 1)
        else sint (push_bit 1 (word_of_int v :: 32 word)))"

text \<open>
  The \<open>for\<close> loop of \<open>encodeFlexPolyline\<close>: a coordinate that is not an array of at least
  two numbers is skipped; the scale is the constant \<open>100000\<close>.
\<close>

fun encodeLoop :: "real list list \<Rightarrow> int \<Rightarrow> int \<Rightarrow> jsstring \<Rightarrow> jsstring" where
  "encodeLoop [] prevLat prevLng res = res"
| "encodeLoop (coord # coordinates) prevLat prevLng res =
     (if length coord < 2 then encodeLoop coordinates prevLat prevLng res
      else let lat = Math_round (coord ! 0 * 100000);
               lng = Math_round (coord ! 1 * 100000);
               deltaLat = lat - prevLat;
               deltaLng = lng - prevLng
           in encodeLoop coordinates lat lng
                (res @ encodeSignedVarintHERE deltaLat @ encodeSignedVarintHERE deltaLng))"

text \<open>
  \<open>encodeFlexPolyline(coordinates)\<close>.  It takes no precision: \<open>precision\<close> is the local
  constant 5, and the header is the single character \<open>((version << 4) | precision) + 63\<close>.
\<close>

definition encodeFlexPolyline :: "real list list \<Rightarrow> jsstring" where
  "encodeFlexPolyline coordinates =
     (if coordinates = [] then []
      else let precision = 5;
               version = 1;
               headerByte = sint (push_bit 4 (version :: 32 word) OR precision)
           in encodeLoop coordinates 0 0 [fromCharCode (headerByte + 63)])"

section \<open>WeatherManager (src/unnamed/part_002)\<close>

text \<open>
  The forecast payload of the provider.  An entry of \<open>current\<close> and of \<open>hourly\<close> is a
  \<open>conditions\<close> record; the fields that the code reads without a test (\<open>dt\<close>, \<open>temp\<close>,
  \<open>humidity\<close>, \<open>weather[0].description\<close>) are always present, the others may be
  \<open>undefined\<close>.  \<open>rain_1h\<close> stands for \<open>rain?.['1h']\<close>, and so on.  The bands
  \<open>minutely\<close>, \<open>hourly\<close> and \<open>daily\<close> may be absent from the payload.  Timestamps are
  integers (epoch seconds).
\<close>

record conditions =
  dt :: int
  temp :: real
  weather_description :: string
  src_humidity :: real
  wind_speed :: "real option"
  src_visibility :: "real option"
  rain_1h :: "real option"
  rain_3h :: "real option"
  snow_1h :: "real option"
  snow_3h :: "real option"
  pop :: "real option"
  feels_like :: "real option"
  wind_gust :: "real option"
  wind_deg :: "real option"

record minute_entry =
  minute_dt :: int
  minute_precipitation :: "real option"

text \<open>A daily entry; its \<open>rain\<close> is a number (the accumulation of the day).\<close>

record day_entry =
  day_dt :: int
  temp_day :: real
  day_weather_description :: string
  day_humidity :: real
  day_wind_speed :: "real option"
  day_rain :: "real option"
  day_pop :: "real option"
  feels_like_day :: "real option"
  day_wind_gust :: "real option"
  day_wind_deg :: "real option"

record payload =
  current :: conditions
  minutely :: "minute_entry list option"
  hourly :: "conditions list option"
  daily :: "day_entry list option"

text \<open>
  The object built by the selection functions.  A field that the code adds only under a
  test, or that a band never sets, is an \<open>option\<close>.
\<close>

record weather_sample =
  temperature :: real
  description :: "string option"
  humidity :: real
  windSpeed :: int
  visibility :: "real option"
  precipitation :: real
  rainProbability :: real
  timestamp :: int
  isCurrentData :: bool
  feelsLike :: "real option"
  windGust :: "int option"
  windDeg :: "real option"
  snow :: "real option"
  rain :: "real option"

datatype js_error = TypeError

text \<open>\<open>a || b\<close> for a number \<open>a\<close> that may be \<open>undefined\<close>: \<open>b\<close> when \<open>a\<close> is \<open>undefined\<close> or 0.\<close>

definition js_or :: "real option \<Rightarrow> real \<Rightarrow> real" where
  "js_or a b = (case a of None \<Rightarrow> b | Some v \<Rightarrow> if v \<noteq> 0 then v else b)"

text \<open>
  \<open>Math.round((wind_speed || 0) * 3.6)\<close> and \<open>Math.round(wind_gust * 3.6)\<close>: the product
  is the product of doubles.
\<close>

definition toKmh :: "js_arith \<Rightarrow> real \<Rightarrow> int" where
  "toKmh ar v = Math_round (js_times ar v (js_3_6 ar))"

text \<open>\<open>(visibility || 0) / 1000\<close>.\<close>

definition toKm :: "js_arith \<Rightarrow> real option \<Rightarrow> real" where
  "toKm ar vis = js_divide ar (js_or vis 0) 1000"

text \<open>\<open>Math.round((pop || 0) * 100)\<close>.\<close>

definition toPercent :: "js_arith \<Rightarrow> real option \<Rightarrow> real" where
  "toPercent ar p = of_int (Math_round (js_times ar (js_or p 0) 100))"

text \<open>The first of two optional numbers that is a number (\<open>typeof ... === 'number'\<close>).\<close>

definition firstNumber :: "real option \<Rightarrow> real option \<Rightarrow> real option" where
  "firstNumber a b = (case a of Some v \<Rightarrow> Some v | None \<Rightarrow> b)"

text \<open>The first branch of \<open>selectWeatherUpTo48Hours\<close> (\<open>diff < 300\<close>).\<close>

definition instantSample :: "js_arith \<Rightarrow> conditions \<Rightarrow> weather_sample" where
  "instantSample ar c =
     (let p = js_or (rain_1h c) (js_or (rain_3h c) 0)
      in \<lparr>temperature = temp c,
          description = Some (weather_description c),
          humidity = src_humidity c,
          windSpeed = toKmh ar (js_or (wind_speed c) 0),
          visibility = Some (toKm ar (src_visibility c)),
          precipitation = p,
          rainProbability = (if p > 0 then 90 else 0),
          timestamp = dt c,
          isCurrentData = True,
          feelsLike = feels_like c,
          windGust = map_option (toKmh ar) (wind_gust c),
          windDeg = wind_deg c,
          snow = firstNumber (snow_1h c) (snow_3h c),
          rain = firstNumber (rain_1h c) (rain_3h c)\<rparr>)"

text \<open>\<open>xs.slice(s, e)\<close> for indices that are not negative.\<close>

definition js_slice :: "'a list \<Rightarrow> nat \<Rightarrow> nat \<Rightarrow> 'a list" where
  "js_slice xs s e = take (e - s) (drop s xs)"

text \<open>
  The rain probability of the minute branch, from the precipitation \<open>p\<close> at the target
  minute and the window of 15 minutes on either side of \<open>minutelyIndex\<close>.
\<close>

definition minuteRainProbability ::
  "js_arith \<Rightarrow> minute_entry list \<Rightarrow> nat \<Rightarrow> real \<Rightarrow> real" where
  "minuteRainProbability ar mins minutelyIndex p =
     (let startIdx = minutelyIndex - 15;
          endIdx = min (length mins - 1) (minutelyIndex + 15);
          surroundingMinutes = js_slice mins startIdx (endIdx + 1);
          precipSum =
            foldl (\<lambda>sum m. js_plus ar sum (js_or (minute_precipitation m) 0)) 0 surroundingMinutes;
          minutesWithRain =
            length (filter (\<lambda>m. js_or (minute_precipitation m) 0 > 0) surroundingMinutes)
      in if p > 0 then min 95 (js_plus ar 60 (js_times ar p 15))
         else if precipSum > 1 then min 80 (js_plus ar 25 (js_times ar precipSum 12))
         else if minutesWithRain > 5 then min 60 (15 + real minutesWithRain * 3)
         else if minutesWithRain > 0 then min 40 (real minutesWithRain * 4)
         else 0)"

text \<open>
  The second branch (\<open>300 \<le> diff \<le> 3600\<close> and \<open>minutely\<close> present).  \<open>targetMinute\<close> is
  \<open>minutely[minutelyIndex] || minutely[0]\<close>; when both are \<open>undefined\<close> (an empty array),
  reading \<open>targetMinute.dt\<close> throws a TypeError.
\<close>

definition minuteSample ::
  "js_arith \<Rightarrow> payload \<Rightarrow> int \<Rightarrow> minute_entry list \<Rightarrow> js_error + weather_sample" where
  "minuteSample ar apiResponse diff mins =
     (let minutelyIndex = nat (diff div 60);
          minutesAhead = minutelyIndex;
          source =
            (if minutesAhead < 30 then current apiResponse
             else case hourly apiResponse of
                    None \<Rightarrow> current apiResponse
                  | Some hs \<Rightarrow> (case js_nth hs 1 of
                                 Some h \<Rightarrow> h
                               | None \<Rightarrow> current apiResponse))
      in case (case js_nth mins minutelyIndex of Some m \<Rightarrow> Some m | None \<Rightarrow> js_nth mins 0) of
           None \<Rightarrow> Inl TypeError
         | Some targetMinute \<Rightarrow>
             (let p = js_or (minute_precipitation targetMinute) 0
              in Inr \<lparr>temperature = temp source,
                      description = Some (weather_description source),
                      humidity = src_humidity source,
                      windSpeed = toKmh ar (js_or (wind_speed source) 0),
                      visibility = Some (toKm ar (src_visibility source)),
                      precipitation = p,
                      rainProbability = minuteRainProbability ar mins minutelyIndex p,
                      timestamp = minute_dt targetMinute,
                      isCurrentData = False,
                      feelsLike = feels_like source,
                      windGust = map_option (toKmh ar) (wind_gust source),
                      windDeg = wind_deg source,
                      snow = snow_1h source,
                      rain = rain_1h source\<rparr>))"

text \<open>
  The search loop of the third branch: \<open>prevHour\<close> is the last entry seen with
  \<open>dt \<le> targetTimestamp\<close>, \<open>nextHour\<close> the first entry with \<open>dt > targetTimestamp\<close>, at
  which the loop breaks.
\<close>

fun hourScan ::
  "conditions list \<Rightarrow> int \<Rightarrow> conditions option \<Rightarrow> conditions option \<times> conditions option"
where
  "hourScan [] targetTimestamp prevHour = (prevHour, None)"
| "hourScan (h # hs) targetTimestamp prevHour =
     (let prevHour' = (if dt h \<le> targetTimestamp then Some h else prevHour)
      in if dt h > targetTimestamp then (prevHour', Some h)
         else hourScan hs targetTimestamp prevHour')"

definition formatHourlyData :: "js_arith \<Rightarrow> conditions \<Rightarrow> weather_sample" where
  "formatHourlyData ar chosen =
     \<lparr>temperature = temp chosen,
      description = Some (weather_description chosen),
      humidity = src_humidity chosen,
      windSpeed = toKmh ar (js_or (wind_speed chosen) 0),
      visibility = Some (toKm ar (src_visibility chosen)),
      precipitation = js_or (rain_1h chosen) 0,
      rainProbability = toPercent ar (pop chosen),
      timestamp = dt chosen,
      isCurrentData = False,
      feelsLike = feels_like chosen,
      windGust = map_option (toKmh ar) (wind_gust chosen),
      windDeg = wind_deg chosen,
      snow = snow_1h chosen,
      rain = rain_1h chosen\<rparr>"

text \<open>\<open>_formatCurrent(current, nextHour)\<close>; \<open>nextHour\<close> may be \<open>undefined\<close>.\<close>

definition formatCurrent :: "js_arith \<Rightarrow> conditions \<Rightarrow> conditions option \<Rightarrow> weather_sample" where
  "formatCurrent ar c nextHour =
     \<lparr>temperature = temp c,
      description = Some (weather_description c),
      humidity = src_humidity c,
      windSpeed = toKmh ar (js_or (wind_speed c) 0),
      visibility = Some (toKm ar (src_visibility c)),
      precipitation = js_or (rain_1h c) (js_or (rain_3h c) 0),
      rainProbability = toPercent ar (case nextHour of None \<Rightarrow> None | Some h \<Rightarrow> pop h),
      timestamp = dt c,
      isCurrentData = True,
      feelsLike = feels_like c,
      windGust = map_option (toKmh ar) (wind_gust c),
      windDeg = wind_deg c,
      snow = None,
      rain = None\<rparr>"

text \<open>
  The last statement of both selection functions,
  \<open>this._formatCurrent(apiResponse.current, apiResponse.hourly[0])\<close>: a TypeError when
  \<open>hourly\<close> is absent.
\<close>

definition currentFallback :: "js_arith \<Rightarrow> payload \<Rightarrow> js_error + weather_sample" where
  "currentFallback ar apiResponse =
     (case hourly apiResponse of
        None \<Rightarrow> Inl TypeError
      | Some hs \<Rightarrow> Inr (formatCurrent ar (current apiResponse) (js_nth hs 0)))"

text \<open>The third branch: the decision between \<open>prevHour\<close> and \<open>nextHour\<close>.\<close>

definition hourChoice ::
  "conditions option \<times> conditions option \<Rightarrow> int \<Rightarrow> conditions option" where
  "hourChoice found targetTimestamp =
     (case found of
        (Some prevHour, Some nextHour) \<Rightarrow>
          (let minutesIntoNextHour = (targetTimestamp - dt prevHour) div 60;
               useNext = (minutesIntoNextHour > 30)
           in Some (if useNext then nextHour else prevHour))
      | (Some prevHour, None) \<Rightarrow> Some prevHour
      | (None, Some nextHour) \<Rightarrow> Some nextHour
      | (None, None) \<Rightarrow> None)"

definition selectWeatherUpTo48Hours ::
  "js_arith \<Rightarrow> payload \<Rightarrow> int \<Rightarrow> js_error + weather_sample" where
  "selectWeatherUpTo48Hours ar apiResponse targetTimestamp =
     (let now = dt (current apiResponse);
          diff = targetTimestamp - now
      in if diff < 300 then Inr (instantSample ar (current apiResponse))
         else case (if diff \<ge> 300 \<and> diff \<le> 3600 then minutely apiResponse else None) of
                Some mins \<Rightarrow> minuteSample ar apiResponse diff mins
              | None \<Rightarrow>
                  (case (case hourly apiResponse of
                           None \<Rightarrow> None
                         | Some hs \<Rightarrow>
                             if length hs > 0
                             then hourChoice (hourScan hs targetTimestamp None) targetTimestamp
                             else None) of
                     Some chosen \<Rightarrow> Inr (formatHourlyData ar chosen)
                   | None \<Rightarrow> currentFallback ar apiResponse))"

text \<open>The loop of \<open>selectWeatherAfter48Hours\<close> over \<open>daily[1..]\<close>.\<close>

fun closestDayLoop :: "day_entry list \<Rightarrow> int \<Rightarrow> day_entry \<Rightarrow> int \<Rightarrow> day_entry" where
  "closestDayLoop [] targetTimestamp closestDay minDiff = closestDay"
| "closestDayLoop (d # ds) targetTimestamp closestDay minDiff =
     (let diff = \<bar>targetTimestamp - day_dt d\<bar>
      in if diff < minDiff then closestDayLoop ds targetTimestamp d diff
         else closestDayLoop ds targetTimestamp closestDay minDiff)"

text \<open>The object \<open>dailyData\<close>: it has no \<open>visibility\<close>, \<open>snow\<close> or \<open>rain\<close> field.\<close>

definition dailyData :: "js_arith \<Rightarrow> day_entry \<Rightarrow> weather_sample" where
  "dailyData ar closestDay =
     \<lparr>temperature = temp_day closestDay,
      description = Some (day_weather_description closestDay),
      humidity = day_humidity closestDay,
      windSpeed = toKmh ar (js_or (day_wind_speed closestDay) 0),
      visibility = None,
      precipitation = js_or (day_rain closestDay) 0,
      rainProbability = toPercent ar (day_pop closestDay),
      timestamp = day_dt closestDay,
      isCurrentData = False,
      feelsLike = feels_like_day closestDay,
      windGust = map_option (toKmh ar) (day_wind_gust closestDay),
      windDeg = day_wind_deg closestDay,
      snow = None,
      rain = None\<rparr>"

definition selectWeatherAfter48Hours ::
  "js_arith \<Rightarrow> payload \<Rightarrow> int \<Rightarrow> js_error + weather_sample" where
  "selectWeatherAfter48Hours ar apiResponse targetTimestamp =
     (case daily apiResponse of
        None \<Rightarrow> currentFallback ar apiResponse
      | Some [] \<Rightarrow> currentFallback ar apiResponse
      | Some (d # ds) \<Rightarrow>
          Inr (dailyData ar (closestDayLoop ds targetTimestamp d \<bar>targetTimestamp - day_dt d\<bar>)))"

text \<open>
  \<open>generateDemoWeatherPoint\<close>.  \<open>Math.random\<close> is the parameter \<open>random\<close>: \<open>random n\<close> is
  the value of the call number \<open>n\<close> (from 0), in the order in which the function makes the
  calls.  \<open>Date.now()\<close> is the parameter \<open>nowMs\<close>.
\<close>

definition demoDescriptions :: "string list" where
  "demoDescriptions = [''Clear sky'', ''Partly cloudy'', ''Cloudy'', ''Light rain'']"

definition generateDemoWeatherPoint :: "(nat \<Rightarrow> real) \<Rightarrow> int \<Rightarrow> weather_sample" where
  "generateDemoWeatherPoint random nowMs =
     (let i = \<lfloor>random 1 * 4\<rfloor>;
          rainy = (random 5 < 3 / 10);
          n = (if rainy then 7 else 6);
          gusty = (random (n + 2) > 2 / 10);
          n' = (if gusty then n + 4 else n + 3)
      in \<lparr>temperature = 10 + random 0 * 15,
          description = (if i < 0 then None else js_nth demoDescriptions (nat i)),
          humidity = 50 + random 2 * 40,
          windSpeed = Math_round (5 + random 3 * 20),
          visibility = Some (8 + random 4 * 7),
          precipitation = (if rainy then random 6 * 5 else 0),
          rainProbability = of_int (Math_round (random n * 100)),
          timestamp = nowMs div 1000,
          isCurrentData = True,
          feelsLike = Some (of_int (Math_round (10 + random (n + 1) * 15))),
          windGust = (if gusty then Some (Math_round (8 + random (n + 3) * 17)) else None),
          windDeg = (if random n' > 1 / 10
                     then Some (of_int (Math_round (random (n' + 1) * 360))) else None),
          snow = None,
          rain = None\<rparr>)"

text \<open>
  \<open>getWeatherAtPoint\<close>.  The network is the parameter \<open>fetched\<close>: \<open>None\<close> when \<open>fetch\<close>
  rejects, the response is not \<open>ok\<close> or its body is not the JSON of a payload (each of
  them throws inside the \<open>try\<close>), else the payload.  \<open>targetTime ?? Math.floor(Date.now()
  / 1000)\<close> is the timestamp.  The \<open>catch\<close> returns the demo point for every error thrown
  inside the \<open>try\<close>.  The write to \<open>this.cache\<close> is not modelled: nothing reads the cache.
\<close>

definition trySelect :: "js_arith \<Rightarrow> payload \<Rightarrow> int \<Rightarrow> js_error + weather_sample" where
  "trySelect ar json targetTimestamp =
     (let now = dt (current json)
      in if targetTimestamp - now \<le> 3600 * 48 then selectWeatherUpTo48Hours ar json targetTimestamp
         else if targetTimestamp - now > 3600 * 48 then selectWeatherAfter48Hours ar json targetTimestamp
         else case currentFallback ar json of
                Inl e \<Rightarrow> Inl e
              | Inr weatherData \<Rightarrow> Inr (weatherData\<lparr>timestamp := now\<rparr>))"

definition getWeatherAtPoint ::
  "js_arith \<Rightarrow> payload option \<Rightarrow> int option \<Rightarrow> int \<Rightarrow> (nat \<Rightarrow> real) \<Rightarrow> weather_sample" where
  "getWeatherAtPoint ar fetched targetTime nowMs random =
     (let targetTimestamp = (case targetTime of Some t \<Rightarrow> t | None \<Rightarrow> nowMs div 1000)
      in case fetched of
           None \<Rightarrow> generateDemoWeatherPoint random nowMs
         | Some json \<Rightarrow>
             (case trySelect ar json targetTimestamp of
                Inl e \<Rightarrow> generateDemoWeatherPoint random nowMs
              | Inr weatherData \<Rightarrow> weatherData))"

section \<open>RouteManager (src/js/route-manager.js)\<close>

text \<open>
  A waypoint of a route.  \<open>distance\<close> is the cumulative distance from the start in metres
  and may be \<open>undefined\<close>; \<open>waypoint_type\<close> is the field \<open>type\<close> (\<open>origin\<close>,
  \<open>intermediate\<close>, \<open>destination\<close>, ...).
\<close>

record waypoint =
  lat :: real
  lng :: real
  distance :: "real option"
  waypoint_type :: string

text \<open>
  The object returned for a waypoint by \<open>calculateWaypointTimings\<close>: the waypoint spread
  into it, with \<open>estimatedArrivalTime\<close> and \<open>progress\<close>.  The formatted time is a string
  of the locale and is left out.
\<close>

record timed_waypoint = waypoint +
  estimatedArrivalTime :: int
  progress :: real

text \<open>
  The callback of \<open>waypoints.map\<close> in \<open>calculateWaypointTimings\<close>, for the waypoint at
  \<open>index\<close>.  \<open>undefined > 0\<close> is false.  The quotient and the product are those of
  doubles; the sum of the two integers is exact.
\<close>

definition timingOf ::
  "js_arith \<Rightarrow> waypoint list \<Rightarrow> real \<Rightarrow> int \<Rightarrow> nat \<Rightarrow> waypoint \<Rightarrow> timed_waypoint" where
  "timingOf ar waypoints totalDurationSeconds departureTimestamp index wp =
     (let lastDistance =
            (case js_nth waypoints (length waypoints - 1) of
               None \<Rightarrow> None
             | Some l \<Rightarrow> distance l);
          progress =
            (case (distance wp, lastDistance) of
               (Some d, Some dl) \<Rightarrow>
                 if dl > 0 then js_divide ar d dl
                 else js_divide ar (real index) (real (max 1 (length waypoints - 1)))
             | _ \<Rightarrow> js_divide ar (real index) (real (max 1 (length waypoints - 1))));
          arrivalTimestamp =
            departureTimestamp + Math_round (js_times ar totalDurationSeconds progress)
      in \<lparr>lat = lat wp, lng = lng wp, distance = distance wp,
          waypoint_type = waypoint_type wp,
          estimatedArrivalTime = arrivalTimestamp, progress = progress\<rparr>)"

text \<open>
  \<open>calculateWaypointTimings(waypoints, totalDuration, departureTime)\<close>.  \<open>totalDuration\<close> is
  \<open>None\<close> when it is not a number (then 0 is used); \<open>departureMs\<close> is
  \<open>departureTime.getTime()\<close>, in milliseconds.
\<close>

definition calculateWaypointTimings ::
  "js_arith \<Rightarrow> waypoint list \<Rightarrow> real option \<Rightarrow> int \<Rightarrow> timed_waypoint list" where
  "calculateWaypointTimings ar waypoints totalDuration departureMs =
     (let departureTimestamp = departureMs div 1000;
          totalDurationSeconds = (case totalDuration of Some d \<Rightarrow> d | None \<Rightarrow> 0)
      in map (\<lambda>(index, wp). timingOf ar waypoints totalDurationSeconds departureTimestamp index wp)
           (enumerate 0 waypoints))"

text \<open>
  An element of \<open>weatherData.waypoints\<close>, as \<open>deduplicateWaypoints\<close> reads it: the waypoint
  (\<open>waypoint.waypoint\<close>, which may be \<open>undefined\<close>), the names \<open>locationName\<close> and
  \<open>location\<close> (strings that may be \<open>undefined\<close>), the number \<open>distanceFromStart\<close> and the
  weather sample spread into the object.
\<close>

record route_point =
  point_waypoint :: "timed_waypoint option"
  locationName :: "jsstring option"
  location :: "jsstring option"
  distanceFromStart :: real
  weather :: weather_sample

text \<open>
  The character class of the regular expression \<open>/^[...]\s*/\<close>, as the code units of the
  source file, and the white space of \<open>\s\<close> and of \<open>trim\<close>.
\<close>

definition glyphClass :: "nat list" where
  "glyphClass = [0xF8FF, 0xFC, 0xF6, 0xA9, 0xF8FF, 0xFC, 0xE8, 0xC5, 0xF8FF, 0xFC, 0xEC, 0xE7,
                 0xD4, 0xF8, 0x3A9]"

definition isSpace :: "nat \<Rightarrow> bool" where
  "isSpace c = (c \<in> set [9, 10, 11, 12, 13, 32, 0xA0, 0x1680, 0x2028, 0x2029, 0x202F, 0x205F,
                          0x3000, 0xFEFF] \<or> (0x2000 \<le> c \<and> c \<le> 0x200A))"

definition trim :: "jsstring \<Rightarrow> jsstring" where
  "trim s = rev (dropWhile isSpace (rev (dropWhile isSpace s)))"

text \<open>\<open>key.replace(/^[...]\s*/, '').trim()\<close>.\<close>

definition cleanKey :: "jsstring \<Rightarrow> jsstring" where
  "cleanKey s =
     trim (case s of
             [] \<Rightarrow> []
           | c # cs \<Rightarrow> if c \<in> set glyphClass then dropWhile isSpace cs else s)"

text \<open>\<open>a || b\<close> for a string \<open>a\<close> that may be \<open>undefined\<close>: \<open>b\<close> when it is \<open>undefined\<close> or empty.\<close>

definition str_or :: "jsstring option \<Rightarrow> jsstring \<Rightarrow> jsstring" where
  "str_or a b = (case a of None \<Rightarrow> b | Some s \<Rightarrow> if s \<noteq> [] then s else b)"

text \<open>
  The two keys of \<open>deduplicateWaypoints\<close>.  \<open>cleanLocationKey\<close> is the key of the waypoint at
  hand; its last resort is the template string of the coordinates, whose conversion of a
  number (or of \<open>undefined\<close>) to a string is the parameter \<open>numStr\<close>.  \<open>prevCleanKey\<close> is the
  key of an element of \<open>uniqueWaypoints\<close> inside \<open>find\<close>; its last resort is the empty string.
\<close>

definition cleanLocationKey :: "(real option \<Rightarrow> jsstring) \<Rightarrow> route_point \<Rightarrow> jsstring" where
  "cleanLocationKey numStr w =
     cleanKey (str_or (locationName w)
                (str_or (location w)
                   (numStr (map_option lat (point_waypoint w)) @ js_str ''_'' @
                    numStr (map_option lng (point_waypoint w)))))"

definition prevCleanKey :: "route_point \<Rightarrow> jsstring" where
  "prevCleanKey wp = cleanKey (str_or (locationName wp) (str_or (location wp) []))"

text \<open>The test \<open>waypoint.waypoint?.type === 'origin' || ... === 'destination'\<close>.\<close>

definition isEndpoint :: "route_point \<Rightarrow> bool" where
  "isEndpoint w =
     (case point_waypoint w of
        None \<Rightarrow> False
      | Some p \<Rightarrow> waypoint_type p = ''origin'' \<or> waypoint_type p = ''destination'')"

text \<open>
  One call of the \<open>forEach\<close> callback of \<open>deduplicateWaypoints\<close>, on the state
  \<open>(uniqueWaypoints, seenLocations)\<close>.
\<close>

definition dedupStep ::
  "(real option \<Rightarrow> jsstring) \<Rightarrow> route_point list \<times> jsstring set \<Rightarrow> route_point
   \<Rightarrow> route_point list \<times> jsstring set" where
  "dedupStep numStr st w =
     (case st of (uniqueWaypoints, seenLocations) \<Rightarrow>
        if isEndpoint w then (uniqueWaypoints @ [w], seenLocations)
        else let key = cleanLocationKey numStr w
             in if key \<in> seenLocations then
                  (case find (\<lambda>wp. prevCleanKey wp = key) uniqueWaypoints of
                     Some previousWaypoint \<Rightarrow>
                       (let distanceDiff = \<bar>distanceFromStart w - distanceFromStart previousWaypoint\<bar>
                        in if distanceDiff > 2000 then (uniqueWaypoints @ [w], seenLocations)
                           else (uniqueWaypoints, seenLocations))
                   | None \<Rightarrow> (uniqueWaypoints, seenLocations))
                else (uniqueWaypoints @ [w], insert key seenLocations))"

text \<open>
  \<open>deduplicateWaypoints\<close>: the field \<open>waypoints\<close> of its result (the other fields of
  \<open>weatherData\<close> are copied, and \<open>summary\<close> gets the counts).  For an empty list the
  argument is returned as it is.
\<close>

definition deduplicateWaypoints :: "(real option \<Rightarrow> jsstring) \<Rightarrow> route_point list \<Rightarrow> route_point list" where
  "deduplicateWaypoints numStr waypoints =
     (if waypoints = [] then waypoints
      else fst (foldl (dedupStep numStr) ([], {}) waypoints))"

text \<open>
  \<open>getWeatherAlongRouteWithTiming\<close> of WeatherManager: one call of \<open>getWeatherAtPoint\<close> per
  waypoint, with its \<open>estimatedArrivalTime\<close> as the target time, joined by \<open>Promise.all\<close>.
  The call for the waypoint number \<open>i\<close> has the network outcome \<open>fetched i\<close>, the clock
  \<open>clock i\<close> and the random numbers \<open>randoms i\<close>.  No call rejects, so the \<open>catch\<close> that
  rethrows is never entered.
\<close>

definition getWeatherAlongRouteWithTiming ::
  "js_arith \<Rightarrow> (nat \<Rightarrow> payload option) \<Rightarrow> (nat \<Rightarrow> int) \<Rightarrow> (nat \<Rightarrow> nat \<Rightarrow> real)
   \<Rightarrow> timed_waypoint list \<Rightarrow> weather_sample list" where
  "getWeatherAlongRouteWithTiming ar fetched clock randoms waypointsWithTiming =
     map (\<lambda>(i, wp). getWeatherAtPoint ar (fetched i) (Some (estimatedArrivalTime wp)) (clock i)
                       (randoms i))
       (enumerate 0 waypointsWithTiming)"

section \<open>Notions used to state the properties\<close>

text \<open>The size of a coordinate group of the integer stream: 3 with a third dimension, else 2.\<close>

definition groupSize :: "header \<Rightarrow> nat" where
  "groupSize h = (if thirdDim h \<noteq> 0 then 3 else 2)"

text \<open>
  The sum of the signed deltas at the positions \<open>start\<close>, \<open>start + g\<close>, ..., \<open>start + g * k\<close>
  of the integer stream.
\<close>

definition deltaSum :: "32 word list \<Rightarrow> nat \<Rightarrow> nat \<Rightarrow> nat \<Rightarrow> int" where
  "deltaSum decoder g start k = (\<Sum>j\<le>k. toSigned (js_nth decoder (start + g * j)))"

text \<open>The number of iterations of the coordinate loop started at index \<open>i\<close>.\<close>

definition groupCount :: "32 word list \<Rightarrow> header \<Rightarrow> nat \<Rightarrow> nat" where
  "groupCount decoder h i = (length decoder - i + groupSize h - 1) div groupSize h"

text \<open>The coordinate pushed by iteration \<open>k\<close> of the loop started at \<open>i\<close> with sums \<open>a b c\<close>.\<close>

definition coordAt ::
  "32 word list \<Rightarrow> header \<Rightarrow> nat \<Rightarrow> int \<Rightarrow> int \<Rightarrow> int \<Rightarrow> nat \<Rightarrow> real list" where
  "coordAt decoder h i a b c k =
     (let g = groupSize h;
          lat = of_int (a + deltaSum decoder g i k) / 10 ^ precision h;
          lng = of_int (b + deltaSum decoder g (i + 1) k) / 10 ^ precision h
      in if thirdDim h \<noteq> 0
         then [lat, lng, of_int (c + deltaSum decoder g (i + 2) k) / 10 ^ thirdDimPrecision h]
         else [lat, lng])"

text \<open>
  The progress fraction of the waypoint \<open>i\<close> as the timing calculator is specified: the
  quotient of the cumulative distances when the waypoint has one and the last waypoint has
  a positive one, and \<open>i / (n - 1)\<close> otherwise, the quotients being those of doubles.
\<close>

definition indexProgress :: "js_arith \<Rightarrow> waypoint list \<Rightarrow> nat \<Rightarrow> real" where
  "indexProgress ar waypoints i = js_divide ar (real i) (real (length waypoints - 1))"

definition expectedProgress :: "js_arith \<Rightarrow> waypoint list \<Rightarrow> nat \<Rightarrow> real" where
  "expectedProgress ar waypoints i =
     (case (distance (waypoints ! i), distance (last waypoints)) of
        (Some d, Some dl) \<Rightarrow> if dl > 0 then js_divide ar d dl else indexProgress ar waypoints i
      | _ \<Rightarrow> indexProgress ar waypoints i)"

text \<open>
  The minutely entry that the minute branch reads for a time difference \<open>diff\<close>: the entry
  at the index \<open>floor(diff / 60)\<close> when the array has it, else the first entry.
\<close>

definition minuteEntry :: "minute_entry list \<Rightarrow> int \<Rightarrow> minute_entry" where
  "minuteEntry mins diff =
     (if nat (diff div 60) < length mins then mins ! nat (diff div 60) else mins ! 0)"

text \<open>
  A small payload for the examples: now is 1000; two minutely entries; hourly entries at
  now + 2 h and now + 3 h; daily entries at now + 2 d and now + 3 d.
\<close>

definition exampleConditions :: conditions where
  "exampleConditions =
     \<lparr>dt = 1000, temp = 20, weather_description = ''clear sky'', src_humidity = 50,
      wind_speed = Some 1, src_visibility = Some 10000, rain_1h = None, rain_3h = None,
      snow_1h = None, snow_3h = None, pop = None, feels_like = None, wind_gust = None,
      wind_deg = None\<rparr>"

definition exampleDay :: day_entry where
  "exampleDay =
     \<lparr>day_dt = 173800, temp_day = 18, day_weather_description = ''light rain'',
      day_humidity = 60, day_wind_speed = Some 1, day_rain = Some 2, day_pop = Some (1 / 2),
      feels_like_day = None, day_wind_gust = None, day_wind_deg = None\<rparr>"

definition examplePayload :: payload where
  "examplePayload =
     \<lparr>current = exampleConditions,
      minutely = Some [\<lparr>minute_dt = 1000, minute_precipitation = Some 0\<rparr>,
                       \<lparr>minute_dt = 1060, minute_precipitation = Some 7\<rparr>],
      hourly = Some [exampleConditions\<lparr>dt := 8200\<rparr>, exampleConditions\<lparr>dt := 11800, temp := 7\<rparr>],
      daily = Some [exampleDay, exampleDay\<lparr>day_dt := 260200\<rparr>]\<rparr>"

text \<open>
  The condition under which \<open>selectWeatherUpTo48Hours\<close> reaches its hourly branch: the
  target is at least 300 seconds ahead, and it is more than one hour ahead or the payload
  has no minutely array.
\<close>

definition hourBranch :: "payload \<Rightarrow> int \<Rightarrow> bool" where
  "hourBranch p targetTimestamp =
     (300 \<le> targetTimestamp - dt (current p)
      \<and> (3600 < targetTimestamp - dt (current p) \<or> minutely p = None))"

text \<open>
  A sample is built from a record of the current or of the hourly band when it copies the
  temperature, the humidity and the description of the record, its wind speed is the wind
  speed of the record (0 when absent) times 3.6, rounded to an integer by \<open>Math.round\<close>,
  and its visibility is the visibility of the record (0 when absent) divided by 1000.
\<close>

definition builtFrom :: "js_arith \<Rightarrow> conditions \<Rightarrow> weather_sample \<Rightarrow> bool" where
  "builtFrom ar c s =
     (temperature s = temp c \<and> humidity s = src_humidity c
      \<and> description s = Some (weather_description c)
      \<and> windSpeed s = Math_round (js_times ar (js_or (wind_speed c) 0) (js_3_6 ar))
      \<and> visibility s = Some (js_divide ar (js_or (src_visibility c) 0) 1000))"

text \<open>
  The same for a record of the daily band, which has no visibility: the sample has none
  either.
\<close>

definition builtFromDay :: "js_arith \<Rightarrow> day_entry \<Rightarrow> weather_sample \<Rightarrow> bool" where
  "builtFromDay ar d s =
     (temperature s = temp_day d \<and> humidity s = day_humidity d
      \<and> description s = Some (day_weather_description d)
      \<and> windSpeed s = Math_round (js_times ar (js_or (day_wind_speed d) 0) (js_3_6 ar))
      \<and> visibility s = None)"

text \<open>
  The source record of the sample for a target within 48 hours: the current record in the
  instant band; in the minute band the current record up to 29 minutes ahead and the second
  hourly entry after that (the current record when there is none); in the hour band the
  hourly entry that the search chooses; the current record when the hourly array is empty.
\<close>

definition sourceUpTo48 :: "payload \<Rightarrow> int \<Rightarrow> conditions" where
  "sourceUpTo48 p targetTimestamp =
     (let diff = targetTimestamp - dt (current p);
          hs = (case hourly p of None \<Rightarrow> [] | Some hs \<Rightarrow> hs)
      in if diff < 300 then current p
         else if diff \<le> 3600 \<and> minutely p \<noteq> None
         then (if diff div 60 < 30 then current p
               else case js_nth hs 1 of None \<Rightarrow> current p | Some h \<Rightarrow> h)
         else case hourChoice (hourScan hs targetTimestamp None) targetTimestamp of
                None \<Rightarrow> current p
              | Some chosen \<Rightarrow> chosen)"

text \<open>
  The daily entry of the sample for a target beyond 48 hours: the entry that the search for
  the closest day returns, when the daily array is present and not empty.
\<close>

definition sourceAfter48 :: "payload \<Rightarrow> int \<Rightarrow> day_entry option" where
  "sourceAfter48 p targetTimestamp =
     (case daily p of
        None \<Rightarrow> None
      | Some [] \<Rightarrow> None
      | Some (d # ds) \<Rightarrow> Some (closestDayLoop ds targetTimestamp d \<bar>targetTimestamp - day_dt d\<bar>))"

text \<open>
  Weather retrieval fails for a point when the network gives no payload, or when the
  selection throws on the payload.
\<close>

definition retrievalFails :: "js_arith \<Rightarrow> payload option \<Rightarrow> int \<Rightarrow> bool" where
  "retrievalFails ar fetched targetTimestamp =
     (case fetched of None \<Rightarrow> True | Some json \<Rightarrow> isl (trySelect ar json targetTimestamp))"

text \<open>
  The ranges of the demo point, as its generator documents them: temperature 10 to 25,
  humidity 50 to 90, wind speed 5 to 25 km/h, visibility 8 to 15, precipitation 0 to 5, rain
  probability 0 to 100, feels-like 10 to 25, and, when present, wind gust 8 to 25 km/h and
  wind direction 0 to 360; the description is one of the four texts; the fields
  \<open>description\<close>, \<open>visibility\<close> and \<open>feelsLike\<close> are present.
\<close>

definition demoInRange :: "weather_sample \<Rightarrow> bool" where
  "demoInRange s =
     (10 \<le> temperature s \<and> temperature s \<le> 25
      \<and> (case description s of None \<Rightarrow> False | Some d \<Rightarrow> d \<in> set demoDescriptions)
      \<and> 50 \<le> humidity s \<and> humidity s \<le> 90
      \<and> 5 \<le> windSpeed s \<and> windSpeed s \<le> 25
      \<and> (case visibility s of None \<Rightarrow> False | Some v \<Rightarrow> 8 \<le> v \<and> v \<le> 15)
      \<and> 0 \<le> precipitation s \<and> precipitation s \<le> 5
      \<and> 0 \<le> rainProbability s \<and> rainProbability s \<le> 100
      \<and> (case feelsLike s of None \<Rightarrow> False | Some f \<Rightarrow> 10 \<le> f \<and> f \<le> 25)
      \<and> (case windGust s of None \<Rightarrow> True | Some g \<Rightarrow> 8 \<le> g \<and> g \<le> 25)
      \<and> (case windDeg s of None \<Rightarrow> True | Some d \<Rightarrow> 0 \<le> d \<and> d \<le> 360)
      \<and> isCurrentData s)"

text \<open>
  The keys that \<open>deduplicateWaypoints\<close> has seen after the waypoints \<open>ws\<close>: the keys of the
  waypoints that are neither origin nor destination.
\<close>

definition seenKeys :: "(real option \<Rightarrow> jsstring) \<Rightarrow> route_point list \<Rightarrow> jsstring set" where
  "seenKeys numStr ws = set (map (cleanLocationKey numStr) (filter (\<lambda>x. \<not> isEndpoint x) ws))"

text \<open>
  Whether the waypoint \<open>w\<close> that follows the waypoints \<open>ws\<close> is kept: it is an origin or a
  destination, or its key was not seen, or the first waypoint kept so far whose name key
  equals its key is more than 2000 m away along the route.
\<close>

definition keeps :: "(real option \<Rightarrow> jsstring) \<Rightarrow> route_point list \<Rightarrow> route_point \<Rightarrow> bool" where
  "keeps numStr ws w =
     (if isEndpoint w then True
      else if cleanLocationKey numStr w \<in> seenKeys numStr ws
      then (case find (\<lambda>p. prevCleanKey p = cleanLocationKey numStr w)
                   (deduplicateWaypoints numStr ws) of
              None \<Rightarrow> False
            | Some p \<Rightarrow> \<bar>distanceFromStart w - distanceFromStart p\<bar> > 2000)
      else True)"

text \<open>
  Waypoints for the examples.  \<open>examplePoint\<close> is a waypoint as \<open>getRouteWeatherData\<close> builds
  it for a reverse-geocoded name: \<open>locationName\<close> is the name, \<open>location\<close> is the name after
  the pin glyph (four code units in the source file) and a space.  \<open>namelessPoint\<close> has neither
  name, the case for which \<open>deduplicateWaypoints\<close> makes its key from the coordinates.
  \<open>exampleNumStr\<close> is the conversion to a string of the two coordinates of the examples.
\<close>

definition examplePoint :: "string \<Rightarrow> string \<Rightarrow> real \<Rightarrow> route_point" where
  "examplePoint ty name d =
     \<lparr>point_waypoint = Some \<lparr>lat = 1, lng = 2, distance = Some d, waypoint_type = ty,
                             estimatedArrivalTime = 0, progress = 0\<rparr>,
      locationName = Some (js_str name),
      location = Some ([0xF8FF, 0xFC, 0xEC, 0xE7, 32] @ js_str name),
      distanceFromStart = d,
      weather = instantSample exactArith exampleConditions\<rparr>"

definition namelessPoint :: "real \<Rightarrow> route_point" where
  "namelessPoint d = (examplePoint ''intermediate'' [] d)\<lparr>locationName := None, location := None\<rparr>"

definition exampleNumStr :: "real option \<Rightarrow> jsstring" where
  "exampleNumStr x =
     (if x = Some 1 then js_str ''1'' else if x = Some 2 then js_str ''2'' else js_str ''undefined'')"

section \<open>The varint stream decoder\<close>

lemma shift_decodeStep: "(shift (decodeStep st c) > 0) = continues (decodeChar c)"
  by (simp add: decodeStep_def Let_def)

lemma shift_decodeLoop:
  "(shift (decodeLoop encoded) > 0) = (encoded \<noteq> [] \<and> continues (decodeChar (last encoded)))"
proof (cases encoded rule: rev_cases)
  case Nil
  then show ?thesis by (simp add: decodeLoop_def)
next
  case (snoc cs c)
  then show ?thesis by (simp add: decodeLoop_def shift_decodeStep)
qed

text \<open>
  Claim C5.  The empty input decodes to the empty list.  \<open>decodeUnsignedValues\<close> returns a
  list exactly when the input is empty or its last symbol has the continuation bit
  \<open>0x20\<close> clear, and it throws (\<open>Invalid encoding\<close>) exactly when the input ends on a
  symbol with the continuation bit set, which is exactly when \<open>shift\<close> is non-zero at
  the end of the input.
\<close>

theorem decodeUnsignedValues_fails_iff_pending:
  "decodeUnsignedValues [] = Inr []
   \<and> ((\<exists>ds. decodeUnsignedValues encoded = Inr ds)
        = (\<not> (encoded \<noteq> [] \<and> continues (decodeChar (last encoded)))))
   \<and> ((decodeUnsignedValues encoded = Inl InvalidEncoding)
        = (encoded \<noteq> [] \<and> continues (decodeChar (last encoded))))
   \<and> ((decodeUnsignedValues encoded = Inl InvalidEncoding) = (shift (decodeLoop encoded) > 0))"
  using shift_decodeLoop [of encoded]
  by (auto simp: decodeUnsignedValues_def Let_def decodeLoop_def)

section \<open>The coordinate loop of the decoder\<close>

lemma groupSize_pos: "0 < groupSize h"
  by (simp add: groupSize_def)

lemma polylineLoop_done:
  "\<not> i < length decoder \<Longrightarrow> polylineLoop decoder h i a b c res = (i, res)"
  by (simp add: polylineLoop.simps [of decoder h i])

lemma polylineLoop_step:
  "i < length decoder \<Longrightarrow>
   polylineLoop decoder h i a b c res =
   polylineLoop decoder h (i + groupSize h)
     (a + toSigned (js_nth decoder i)) (b + toSigned (js_nth decoder (i + 1)))
     (if thirdDim h \<noteq> 0 then c + toSigned (js_nth decoder (i + 2)) else c)
     (res @ [coordAt decoder h i a b c 0])"
  by (simp add: polylineLoop.simps [of decoder h i] Let_def groupSize_def coordAt_def deltaSum_def)

lemma groupCount_done: "\<not> i < length decoder \<Longrightarrow> groupCount decoder h i = 0"
  using groupSize_pos [of h] by (simp add: groupCount_def)

lemma ceil_div_step:
  fixes m g :: nat
  assumes "0 < g" "0 < m"
  shows "(m + g - 1) div g = Suc ((m - g + g - 1) div g)"
proof -
  obtain m' where m: "m = Suc m'"
    using assms(2) by (cases m) auto
  have l: "(m + g - 1) div g = Suc (m' div g)"
    using assms(1) by (simp add: m)
  show ?thesis
  proof (cases "g \<le> m")
    case True
    then have "m - g + g - 1 = m'" by (simp add: m)
    then show ?thesis using l by simp
  next
    case False
    then have "m - g + g - 1 = g - 1" "m' < g" by (simp_all add: m)
    then show ?thesis using l assms(1) by simp
  qed
qed

lemma ceil_div_exact:
  fixes q g :: nat
  assumes "0 < g"
  shows "(g * q + g - 1) div g = q"
proof (rule div_nat_eqI)
  show "g * q \<le> g * q + g - 1" using assms by simp
  show "g * q + g - 1 < g * Suc q" using assms by simp
qed

lemma groupCount_step:
  assumes "i < length decoder"
  shows "groupCount decoder h i = Suc (groupCount decoder h (i + groupSize h))"
proof -
  have "length decoder - (i + groupSize h) = length decoder - i - groupSize h"
    by simp
  then show ?thesis
    using ceil_div_step [OF groupSize_pos [of h], of "length decoder - i"] assms
    by (simp add: groupCount_def)
qed

lemma deltaSum_shift:
  "deltaSum decoder g start (Suc k) =
   toSigned (js_nth decoder start) + deltaSum decoder g (start + g) k"
  by (simp only: deltaSum_def sum.atMost_Suc_shift) (simp add: algebra_simps)

lemma coordAt_shift:
  "coordAt decoder h i a b c (Suc k) =
   coordAt decoder h (i + groupSize h)
     (a + toSigned (js_nth decoder i)) (b + toSigned (js_nth decoder (i + 1)))
     (if thirdDim h \<noteq> 0 then c + toSigned (js_nth decoder (i + 2)) else c) k"
  by (simp add: coordAt_def Let_def deltaSum_shift add.assoc add.left_commute add.commute)

lemma polylineLoop_closed:
  "polylineLoop decoder h i a b c res =
   (i + groupSize h * groupCount decoder h i,
    res @ map (coordAt decoder h i a b c) [0..<groupCount decoder h i])"
proof (induction "length decoder - i" arbitrary: i a b c res rule: less_induct)
  case less
  show ?case
  proof (cases "i < length decoder")
    case False
    then show ?thesis by (simp add: polylineLoop_done groupCount_done)
  next
    case True
    let ?g = "groupSize h"
    have "length decoder - (i + ?g) < length decoder - i"
      using True groupSize_pos [of h] by simp
    note IH = less [OF this]
    have "map (coordAt decoder h i a b c) [0..<Suc (groupCount decoder h (i + ?g))] =
          coordAt decoder h i a b c 0 #
          map (\<lambda>k. coordAt decoder h i a b c (Suc k)) [0..<groupCount decoder h (i + ?g)]"
      by (simp only: upt_conv_Cons [OF zero_less_Suc] list.map map_Suc_upt [symmetric] map_map o_def)
    then show ?thesis
      by (simp only: polylineLoop_step [OF True] IH groupCount_step [OF True] coordAt_shift)
         (simp add: algebra_simps)
  qed
qed

text \<open>The loop stops exactly at the end of the stream iff the rest is a whole number of groups.\<close>

lemma final_index_eq_length:
  assumes "2 \<le> length decoder"
  shows "(2 + groupSize h * groupCount decoder h 2 = length decoder)
         = ((length decoder - 2) mod groupSize h = 0)"
proof -
  let ?g = "groupSize h" and ?m = "length decoder - 2"
  have g: "0 < ?g" by (rule groupSize_pos)
  have c: "groupCount decoder h 2 = (?m + ?g - 1) div ?g" by (simp add: groupCount_def)
  show ?thesis
  proof
    assume "2 + ?g * groupCount decoder h 2 = length decoder"
    then have "?m = ?g * groupCount decoder h 2" by simp
    then show "?m mod ?g = 0" by (metis mod_mult_self1_is_0)
  next
    assume "?m mod ?g = 0"
    then obtain q where q: "?m = ?g * q" by (auto simp: mod_eq_0_iff_dvd)
    have "(?g * q + ?g - 1) div ?g = q"
      using g by (rule ceil_div_exact)
    then have "groupCount decoder h 2 = q" by (simp add: c q)
    then show "2 + ?g * groupCount decoder h 2 = length decoder" using q assms by simp
  qed
qed

lemma decodePolyline_unfold:
  assumes "decodeUnsignedValues encoded = Inr decoder"
  shows "decodePolyline encoded =
     (if js_nth decoder 0 \<noteq> Some 1 then Inl InvalidFormatVersion
      else let h = headerFields (js_nth decoder 1)
           in if 2 + groupSize h * groupCount decoder h 2 \<noteq> length decoder
              then Inl PrematureEnding
              else Inr (map (coordAt decoder h 2 0 0 0) [0..<groupCount decoder h 2]))"
  by (simp add: decodePolyline_def assms decodeHeader_def polylineLoop_closed Let_def)

text \<open>
  Before the coordinate loop, a stream whose first integer is not the version 1 is refused
  with \<open>Invalid format version\<close>, whatever follows.
\<close>

lemma decodePolyline_bad_version:
  assumes "decodeUnsignedValues encoded = Inr decoder" and "js_nth decoder 0 \<noteq> Some 1"
  shows "decodePolyline encoded = Inl InvalidFormatVersion"
  using assms(2) by (simp add: decodePolyline_unfold [OF assms(1)])

text \<open>
  Claim C6.  For every decoded integer stream that passes the version test, if the number
  of integers after the two header integers is not a multiple of the group size (2 without
  a third dimension, 3 with one), \<open>decodePolyline\<close> fails with the premature-ending error
  and returns no coordinate list.
\<close>

theorem decodePolyline_partial_group_fails:
  assumes "decodeUnsignedValues encoded = Inr decoder"
      and "js_nth decoder 0 = Some 1"
      and "(length decoder - 2) mod groupSize (headerFields (js_nth decoder 1)) \<noteq> 0"
  shows "decodePolyline encoded = Inl PrematureEnding
       \<and> \<not> (\<exists>res. decodePolyline encoded = Inr res)"
proof -
  from assms(3) have "2 \<le> length decoder"
    by (cases "2 \<le> length decoder") simp_all
  from final_index_eq_length [OF this] assms(3)
  have "2 + groupSize (headerFields (js_nth decoder 1))
          * groupCount decoder (headerFields (js_nth decoder 1)) 2 \<noteq> length decoder"
    by simp
  then show ?thesis
    by (simp add: decodePolyline_unfold [OF assms(1)] assms(2) Let_def)
qed

theorem decodePolyline_partial_group_fails_witness:
  "decodeUnsignedValues (js_str ''BAK'') = Inr [1, 0, 10]
   \<and> js_nth [1, 0, 10 :: 32 word] 0 = Some 1
   \<and> (length [1, 0, 10 :: 32 word] - 2) mod groupSize (headerFields (js_nth [1, 0, 10] 1)) \<noteq> 0
   \<and> decodePolyline (js_str ''BAK'') = Inl PrematureEnding"
proof -
  have d: "decodeUnsignedValues (js_str ''BAK'') = Inr [1, 0, 10]"
    by code_simp
  have m: "(length [1, 0, 10 :: 32 word] - 2) mod groupSize (headerFields (js_nth [1, 0, 10] 1)) \<noteq> 0"
    by code_simp
  have v: "js_nth [1, 0, 10 :: 32 word] 0 = Some 1"
    by (simp add: js_nth_def)
  show ?thesis
    using decodePolyline_partial_group_fails [OF d v m] d m v by simp
qed

text \<open>
  Claim C4, as stated, fails: the string \<open>BA2FA\<close> (version 1, precision 0, deltas 91 and 0)
  decodes without an error to the single coordinate \<open>[91, 0]\<close>, whose latitude is above 90.
  The decoder has no range test.
\<close>

theorem decodePolyline_returns_out_of_range:
  "decodePolyline (js_str ''BA2FA'') = Inr [[91, 0]] \<and> \<not> ((91 :: real) \<le> 90)"
  by code_simp

text \<open>
  Claim C4, amended.  For every encoded polyline whose decode completes successfully, the
  number of returned coordinates is the number of groups of the integer stream, and the
  latitude and longitude of the \<open>k\<close>-th returned coordinate are exactly the sums of the
  signed deltas of the groups \<open>0..k\<close> divided by \<open>10 ^ precision\<close>: the values are never
  clamped and never tested against \<open>[-90, 90]\<close> or \<open>[-180, 180]\<close>, so a value outside these
  bounds is returned as it is.
\<close>

theorem decodePolyline_unclamped:
  assumes "decodePolyline encoded = Inr res"
      and "decodeUnsignedValues encoded = Inr decoder"
      and "h = headerFields (js_nth decoder 1)"
      and "k < length res"
  shows "length res = groupCount decoder h 2
       \<and> res ! k ! 0 = of_int (deltaSum decoder (groupSize h) 2 k) / 10 ^ precision h
       \<and> res ! k ! 1 = of_int (deltaSum decoder (groupSize h) 3 k) / 10 ^ precision h"
proof -
  from assms(1) have r: "res = map (coordAt decoder h 2 0 0 0) [0..<groupCount decoder h 2]"
    by (simp add: decodePolyline_unfold [OF assms(2)] Let_def assms(3) split: if_splits)
  then have len: "length res = groupCount decoder h 2" by simp
  with assms(4) have "res ! k = coordAt decoder h 2 0 0 0 k"
    by (simp add: r)
  then show ?thesis using len
    by (simp add: coordAt_def Let_def)
qed

theorem decodePolyline_unclamped_witness:
  "decodePolyline (js_str ''BFoz5xJ67i1B1B7PzIhaxL7Y'')
     = Inr [[5010228 / 100000, 869821 / 100000], [5010201 / 100000, 869567 / 100000],
            [5010063 / 100000, 869150 / 100000], [5009878 / 100000, 868752 / 100000]]
   \<and> decodeUnsignedValues (js_str ''BFoz5xJ67i1B1B7PzIhaxL7Y'')
     = Inr [1, 5, 10020456, 1739642, 53, 507, 275, 833, 369, 795]
   \<and> (5010201 / 100000 :: real)
     = of_int (deltaSum [1, 5, 10020456, 1739642, 53, 507, 275, 833, 369, 795] 2 2 1) / 10 ^ 5"
proof -
  let ?s = "js_str ''BFoz5xJ67i1B1B7PzIhaxL7Y''"
  let ?d = "[1, 5, 10020456, 1739642, 53, 507, 275, 833, 369, 795] :: 32 word list"
  let ?r = "[[5010228 / 100000, 869821 / 100000], [5010201 / 100000, 869567 / 100000],
             [5010063 / 100000, 869150 / 100000], [5009878 / 100000, 868752 / 100000]] :: real list list"
  have r: "decodePolyline ?s = Inr ?r" by code_simp
  have d: "decodeUnsignedValues ?s = Inr ?d" by code_simp
  have h: "\<lparr>precision = 5, thirdDim = 0, thirdDimPrecision = 0\<rparr> = headerFields (js_nth ?d 1)"
    by code_simp
  have k: "1 < length ?r" by simp
  have g: "groupSize \<lparr>precision = 5, thirdDim = 0, thirdDimPrecision = 0\<rparr> = 2"
    by (simp add: groupSize_def)
  show ?thesis
    using decodePolyline_unclamped [OF r d h k] r d g by simp
qed

section \<open>Encoding then decoding\<close>

lemma encodeLoop_keeps_prefix: "\<exists>ys. encodeLoop coordinates a b res = res @ ys"
proof (induction coordinates arbitrary: a b res)
  case Nil
  show ?case by simp
next
  case (Cons coord coordinates)
  show ?case
  proof (cases "length coord < 2")
    case True
    with Cons [of a b res] show ?thesis by simp
  next
    case False
    let ?lat = "Math_round (coord ! 0 * 100000)" and ?lng = "Math_round (coord ! 1 * 100000)"
    from Cons [of ?lat ?lng "res @ encodeSignedVarintHERE (?lat - a) @ encodeSignedVarintHERE (?lng - b)"]
    obtain ys where "encodeLoop coordinates ?lat ?lng
        (res @ encodeSignedVarintHERE (?lat - a) @ encodeSignedVarintHERE (?lng - b))
      = (res @ encodeSignedVarintHERE (?lat - a) @ encodeSignedVarintHERE (?lng - b)) @ ys"
      by blast
    with False show ?thesis by (simp add: Let_def)
  qed
qed

lemma encodeFlexPolyline_header:
  "encodeFlexPolyline coordinates = [] \<or> (\<exists>ys. encodeFlexPolyline coordinates = 84 # ys)"
proof (cases "coordinates = []")
  case True
  then show ?thesis by (simp add: encodeFlexPolyline_def)
next
  case False
  have "fromCharCode (sint (push_bit 4 (1 :: 32 word) OR 5) + 63) = 84"
    by (simp add: fromCharCode_def)
  with False encodeLoop_keeps_prefix [of coordinates 0 0 "[84]"] show ?thesis
    by (auto simp: encodeFlexPolyline_def Let_def)
qed

lemma resList_decodeStep: "\<exists>w. resList (decodeStep st c) = resList st @ w"
  by (simp add: decodeStep_def Let_def)

lemma resList_keeps_prefix: "\<exists>zs. resList (foldl decodeStep st cs) = resList st @ zs"
proof (induction cs arbitrary: st)
  case Nil
  show ?case by simp
next
  case (Cons c cs)
  from Cons [of "decodeStep st c"] obtain zs where
    zs: "resList (foldl decodeStep (decodeStep st c) cs) = resList (decodeStep st c) @ zs"
    by blast
  from resList_decodeStep [of st c] obtain w where
    w: "resList (decodeStep st c) = resList st @ w"
    by blast
  have "resList (foldl decodeStep st (c # cs)) = resList st @ (w @ zs)"
    by (simp add: zs w)
  then show ?case by blast
qed

lemma decodeStep_header_char:
  "decodeStep \<lparr>result = 0, shift = 0, resList = []\<rparr> 84 = \<lparr>result = 0, shift = 0, resList = [19]\<rparr>"
  by (simp add: decodeStep_def decodeChar_def DECODING_TABLE_def continues_def toInt32_def)

lemma decodePolyline_bad_first:
  assumes "decodeUnsignedValues encoded = Inr (19 # zs)"
  shows "decodePolyline encoded = Inl InvalidFormatVersion"
  by (simp add: decodePolyline_def assms decodeHeader_def js_nth_def)

text \<open>
  Whatever the coordinates, decoding the output of the encoder fails: the header character
  of the encoder is the symbol of the value 19 for the decoder, which is not the version 1.
\<close>

lemma decode_encode_never_succeeds:
  "decodePolyline (encodeFlexPolyline coordinates) = Inl InvalidEncoding
   \<or> decodePolyline (encodeFlexPolyline coordinates) = Inl InvalidFormatVersion"
proof -
  from encodeFlexPolyline_header [of coordinates]
  consider "encodeFlexPolyline coordinates = []"
    | ys where "encodeFlexPolyline coordinates = 84 # ys"
    by blast
  then show ?thesis
  proof cases
    case 1
    then show ?thesis
      by (simp add: decodePolyline_def decodeUnsignedValues_def decodeLoop_def decodeHeader_def
          js_nth_def)
  next
    case 2
    from resList_keeps_prefix [of "\<lparr>result = 0, shift = 0, resList = [19]\<rparr>" ys]
    obtain zs where zs: "resList (decodeLoop (84 # ys)) = 19 # zs"
      by (auto simp: decodeLoop_def decodeStep_header_char)
    show ?thesis
    proof (cases "shift (decodeLoop (84 # ys)) > 0")
      case True
      then show ?thesis
        by (simp add: 2 decodePolyline_def decodeUnsignedValues_def Let_def)
    next
      case False
      then have "decodeUnsignedValues (84 # ys) = Inr (19 # zs)"
        by (simp add: decodeUnsignedValues_def Let_def zs)
      from decodePolyline_bad_first [OF this] show ?thesis
        by (simp add: 2)
    qed
  qed
qed

text \<open>
  Claim C1 does not hold of the code.  \<open>encodeFlexPolyline\<close> has no precision argument, writes
  its header as one character and every varint with the offset 63 instead of the symbol
  table of the decoder.  For the single coordinate \<open>[0, 0]\<close> it returns \<open>T??\<close>, and
  \<open>decodePolyline\<close> throws \<open>Invalid encoding\<close> on that string.
\<close>

theorem decode_encode_origin_fails:
  "encodeFlexPolyline [[0, 0]] = js_str ''T??''
   \<and> decodePolyline (encodeFlexPolyline [[0, 0]]) = Inl InvalidEncoding"
  by code_simp

section \<open>The waypoint timing calculator\<close>

lemma js_nth_last: "xs \<noteq> [] \<Longrightarrow> js_nth xs (length xs - 1) = Some (last xs)"
  by (simp add: js_nth_def last_conv_nth)

lemma timingOf_progress:
  assumes "2 \<le> length waypoints" "i < length waypoints"
  shows "progress (timingOf ar waypoints tot dep i (waypoints ! i)) = expectedProgress ar waypoints i"
proof -
  have ne: "waypoints \<noteq> []" using assms by auto
  have m: "max 1 (length waypoints - 1) = length waypoints - 1" using assms by simp
  show ?thesis
    unfolding timingOf_def Let_def js_nth_last [OF ne] m expectedProgress_def indexProgress_def
    by (simp split: option.splits)
qed

lemma timingOf_arrival:
  "estimatedArrivalTime (timingOf ar waypoints tot dep i wp)
     = dep + Math_round (js_times ar tot (progress (timingOf ar waypoints tot dep i wp)))"
  by (simp add: timingOf_def Let_def)

lemma timingOf_truncate: "waypoint.truncate (timingOf ar waypoints tot dep i wp) = wp"
  by (simp add: timingOf_def Let_def waypoint.defs timed_waypoint.defs)

lemma timings_nth:
  assumes "i < length waypoints"
  shows "calculateWaypointTimings ar waypoints totalDuration departureMs ! i
         = timingOf ar waypoints (case totalDuration of Some d \<Rightarrow> d | None \<Rightarrow> 0)
             (departureMs div 1000) i (waypoints ! i)"
  using assms by (simp add: calculateWaypointTimings_def Let_def nth_enumerate_eq)

text \<open>
  Claim C10.  For a list of at least two waypoints, \<open>calculateWaypointTimings\<close> returns one
  object per waypoint, in the original order and with the waypoint's own fields unchanged;
  the progress of the waypoint \<open>i\<close> is \<open>distance[i] / distance[last]\<close> when the waypoint
  has a distance and the last waypoint a positive one, and \<open>i / (n - 1)\<close> otherwise; and
  the estimated arrival is the departure timestamp (the departure instant in whole seconds)
  plus the rounded product of the total duration and the progress.  The quotient and the
  product are the operations of the numbers of the program, whatever they are.
\<close>

theorem calculateWaypointTimings_spec:
  assumes "2 \<le> length waypoints" and "i < length waypoints"
    and "r = calculateWaypointTimings ar waypoints totalDuration departureMs"
  shows "length r = length waypoints
       \<and> map waypoint.truncate r = waypoints
       \<and> progress (r ! i) = expectedProgress ar waypoints i
       \<and> estimatedArrivalTime (r ! i)
           = departureMs div 1000
             + Math_round (js_times ar (case totalDuration of Some d \<Rightarrow> d | None \<Rightarrow> 0)
                             (progress (r ! i)))"
proof -
  have len: "length r = length waypoints"
    by (simp add: assms(3) calculateWaypointTimings_def Let_def)
  have "map waypoint.truncate r = waypoints"
  proof (rule nth_equalityI)
    show "length (map waypoint.truncate r) = length waypoints" using len by simp
  next
    fix j assume "j < length (map waypoint.truncate r)"
    then have j: "j < length waypoints" using len by simp
    then show "map waypoint.truncate r ! j = waypoints ! j"
      using len by (simp add: assms(3) timings_nth [OF j] timingOf_truncate)
  qed
  then show ?thesis
    using len assms(1,2)
    by (simp add: assms(3) timings_nth timingOf_progress timingOf_arrival)
qed

text \<open>
  An instance in which the operations of doubles are exact: distances 0, 1000 and 4000, a
  duration of 100 seconds; the progress of the second waypoint is 0.25 and its arrival 25
  seconds after the departure.
\<close>

theorem calculateWaypointTimings_spec_witness:
  "2 \<le> length [\<lparr>lat = 1, lng = 2, distance = Some 0, waypoint_type = ''origin''\<rparr>,
                 \<lparr>lat = 3, lng = 4, distance = Some 1000, waypoint_type = ''intermediate''\<rparr>,
                 \<lparr>lat = 5, lng = 6, distance = Some 4000, waypoint_type = ''destination''\<rparr>]
   \<and> progress (calculateWaypointTimings exactArith
         [\<lparr>lat = 1, lng = 2, distance = Some 0, waypoint_type = ''origin''\<rparr>,
          \<lparr>lat = 3, lng = 4, distance = Some 1000, waypoint_type = ''intermediate''\<rparr>,
          \<lparr>lat = 5, lng = 6, distance = Some 4000, waypoint_type = ''destination''\<rparr>]
         (Some 100) 5000999 ! 1) = 1 / 4
   \<and> estimatedArrivalTime (calculateWaypointTimings exactArith
         [\<lparr>lat = 1, lng = 2, distance = Some 0, waypoint_type = ''origin''\<rparr>,
          \<lparr>lat = 3, lng = 4, distance = Some 1000, waypoint_type = ''intermediate''\<rparr>,
          \<lparr>lat = 5, lng = 6, distance = Some 4000, waypoint_type = ''destination''\<rparr>]
         (Some 100) 5000999 ! 1) = 5025"
proof -
  let ?ws = "[\<lparr>lat = 1, lng = 2, distance = Some 0, waypoint_type = ''origin''\<rparr>,
              \<lparr>lat = 3, lng = 4, distance = Some 1000, waypoint_type = ''intermediate''\<rparr>,
              \<lparr>lat = 5, lng = 6, distance = Some 4000, waypoint_type = ''destination''\<rparr>]"
  have a: "2 \<le> length ?ws" and b: "1 < length ?ws" by simp_all
  have e: "expectedProgress exactArith ?ws 1 = 1 / 4"
    by (simp add: expectedProgress_def exactArith_def)
  note s = calculateWaypointTimings_spec [OF a b refl, of exactArith "Some 100" 5000999]
  have p: "progress (calculateWaypointTimings exactArith ?ws (Some 100) 5000999 ! 1) = 1 / 4"
    using s [THEN conjunct2, THEN conjunct2, THEN conjunct1] e by (simp only:)
  have t: "estimatedArrivalTime (calculateWaypointTimings exactArith ?ws (Some 100) 5000999 ! 1) = 5025"
    unfolding s [THEN conjunct2, THEN conjunct2, THEN conjunct2] p
    by (simp add: Math_round_def exactArith_def)
  show ?thesis
    using a p t by (simp only: simp_thms)
qed

section \<open>The instant and the minute band\<close>

lemma minuteSample_entry:
  assumes "mins \<noteq> []"
  shows "\<exists>s. minuteSample ar p diff mins = Inr s
           \<and> precipitation s = js_or (minute_precipitation (minuteEntry mins diff)) 0
           \<and> timestamp s = minute_dt (minuteEntry mins diff)
           \<and> \<not> isCurrentData s"
proof -
  have "(case js_nth mins (nat (diff div 60)) of Some m \<Rightarrow> Some m | None \<Rightarrow> js_nth mins 0)
        = Some (minuteEntry mins diff)"
    using assms by (simp add: js_nth_def minuteEntry_def)
  then show ?thesis
    by (simp add: minuteSample_def Let_def)
qed

text \<open>
  Claim C2, as stated, fails in its second half: the minute index is not clamped to the
  array.  With two minutely entries and a target 300 seconds ahead the index is 5; the
  code reads \<open>minutely[5] || minutely[0]\<close>, that is the first entry (precipitation 0),
  where the index clamped to the array bounds is 1 (precipitation 7).
\<close>

theorem minute_index_not_clamped:
  "300 \<le> 1300 - dt (current examplePayload) \<and> 1300 - dt (current examplePayload) \<le> 3600
   \<and> minutely examplePayload
       = Some [\<lparr>minute_dt = 1000, minute_precipitation = Some 0\<rparr>,
               \<lparr>minute_dt = 1060, minute_precipitation = Some 7\<rparr>]
   \<and> map_sum id precipitation (selectWeatherUpTo48Hours exactArith examplePayload 1300) = Inr 0
   \<and> js_or (minute_precipitation
              ([\<lparr>minute_dt = 1000, minute_precipitation = Some 0\<rparr>,
                \<lparr>minute_dt = 1060, minute_precipitation = Some 7\<rparr>]
               ! min (nat ((1300 - dt (current examplePayload)) div 60)) (2 - 1))) 0 = 7"
  by code_simp

text \<open>
  Claim C2, amended.  When \<open>target - now\<close> is below 300 seconds (negative included) the
  sample is the one built from \<open>current\<close> alone and it is marked as current.  When
  \<open>300 \<le> target - now \<le> 3600\<close> and the minutely array is present and not empty, a sample
  is built, it is not marked as current, and its precipitation and timestamp come from the
  minutely entry at the index \<open>floor((target - now) / 60)\<close> when the array has that index,
  and from the first minutely entry otherwise.
\<close>

theorem selectWeatherUpTo48Hours_instant_and_minute:
  "(targetTimestamp - dt (current p) < 300 \<longrightarrow>
      selectWeatherUpTo48Hours ar p targetTimestamp = Inr (instantSample ar (current p))
      \<and> isCurrentData (instantSample ar (current p))
      \<and> timestamp (instantSample ar (current p)) = dt (current p))
   \<and> (300 \<le> targetTimestamp - dt (current p) \<and> targetTimestamp - dt (current p) \<le> 3600
        \<and> minutely p = Some mins \<and> mins \<noteq> [] \<longrightarrow>
      (\<exists>s. selectWeatherUpTo48Hours ar p targetTimestamp = Inr s
         \<and> precipitation s
             = js_or (minute_precipitation (minuteEntry mins (targetTimestamp - dt (current p)))) 0
         \<and> timestamp s = minute_dt (minuteEntry mins (targetTimestamp - dt (current p)))
         \<and> \<not> isCurrentData s))"
proof (intro conjI impI)
  assume "targetTimestamp - dt (current p) < 300"
  then show "selectWeatherUpTo48Hours ar p targetTimestamp = Inr (instantSample ar (current p))"
    by (simp add: selectWeatherUpTo48Hours_def Let_def)
next
  show "isCurrentData (instantSample ar (current p))"
    by (simp add: instantSample_def Let_def)
next
  show "timestamp (instantSample ar (current p)) = dt (current p)"
    by (simp add: instantSample_def Let_def)
next
  assume a: "300 \<le> targetTimestamp - dt (current p) \<and> targetTimestamp - dt (current p) \<le> 3600
        \<and> minutely p = Some mins \<and> mins \<noteq> []"
  then have "selectWeatherUpTo48Hours ar p targetTimestamp
             = minuteSample ar p (targetTimestamp - dt (current p)) mins"
    by (simp add: selectWeatherUpTo48Hours_def Let_def)
  with minuteSample_entry [of mins ar p "targetTimestamp - dt (current p)"] a
  show "\<exists>s. selectWeatherUpTo48Hours ar p targetTimestamp = Inr s
         \<and> precipitation s
             = js_or (minute_precipitation (minuteEntry mins (targetTimestamp - dt (current p)))) 0
         \<and> timestamp s = minute_dt (minuteEntry mins (targetTimestamp - dt (current p)))
         \<and> \<not> isCurrentData s"
    by simp
qed

theorem selectWeatherUpTo48Hours_instant_and_minute_witness:
  "1299 - dt (current examplePayload) < 300
   \<and> selectWeatherUpTo48Hours exactArith examplePayload 1299
       = Inr (instantSample exactArith exampleConditions)
   \<and> isCurrentData (instantSample exactArith exampleConditions)
   \<and> 300 \<le> 1060 + 300 - dt (current examplePayload)
   \<and> map_sum id precipitation (selectWeatherUpTo48Hours exactArith examplePayload 1300) = Inr 0
   \<and> map_sum id timestamp (selectWeatherUpTo48Hours exactArith examplePayload 1300) = Inr 1000"
proof -
  let ?m = "[\<lparr>minute_dt = 1000, minute_precipitation = Some 0\<rparr>,
             \<lparr>minute_dt = 1060, minute_precipitation = Some 7\<rparr>]"
  have c: "current examplePayload = exampleConditions" "dt exampleConditions = 1000"
    "minutely examplePayload = Some ?m"
    by (simp_all add: examplePayload_def exampleConditions_def)
  have a: "1299 - dt (current examplePayload) < 300" by (simp add: c)
  have b: "300 \<le> 1300 - dt (current examplePayload) \<and> 1300 - dt (current examplePayload) \<le> 3600
        \<and> minutely examplePayload = Some ?m \<and> ?m \<noteq> []"
    by (simp add: c)
  have e: "minuteEntry ?m (1300 - dt (current examplePayload))
           = \<lparr>minute_dt = 1000, minute_precipitation = Some 0\<rparr>"
    by (simp add: minuteEntry_def c)
  from selectWeatherUpTo48Hours_instant_and_minute [of 1299 examplePayload exactArith,
      THEN conjunct1, rule_format, OF a]
  have i: "selectWeatherUpTo48Hours exactArith examplePayload 1299
             = Inr (instantSample exactArith exampleConditions)"
    "isCurrentData (instantSample exactArith exampleConditions)"
    by (simp_all add: c)
  from selectWeatherUpTo48Hours_instant_and_minute [of 1300 examplePayload exactArith ?m,
      THEN conjunct2, rule_format, OF b]
  obtain s where s: "selectWeatherUpTo48Hours exactArith examplePayload 1300 = Inr s"
    "precipitation s = 0" "timestamp s = 1000"
    unfolding e by (auto simp: js_or_def)
  show ?thesis
    using a i s by (simp add: c)
qed


section \<open>The hour band\<close>

lemma hourScan_all_before:
  "\<forall>x\<in>set hs. dt x \<le> t \<Longrightarrow>
   hourScan hs t prev = (if hs = [] then prev else Some (last hs), None)"
  by (induction hs arbitrary: prev) (auto simp: Let_def)

lemma hourScan_straddle:
  "\<forall>x\<in>set xs. dt x \<le> t \<Longrightarrow> t < dt n \<Longrightarrow>
   hourScan (xs @ n # ys) t prev = (if xs = [] then prev else Some (last xs), Some n)"
  by (induction xs arbitrary: prev) (auto simp: Let_def)

lemma hour_branch_select:
  assumes "hourBranch p t" and "hourly p = Some hs" and "hs \<noteq> []"
    and "hourChoice (hourScan hs t None) t = Some chosen"
  shows "selectWeatherUpTo48Hours ar p t = Inr (formatHourlyData ar chosen)"
  using assms
  by (auto simp: selectWeatherUpTo48Hours_def hourBranch_def Let_def)

lemma minutes_over_30: "((d :: int) div 60 > 30) = (1860 \<le> d)"
  by presburger

text \<open>
  What the hourly branch does when the entries up to the earlier one of a pair are not
  after the target and the later one is: it takes the later entry from 1860 seconds past
  the earlier entry on, and the earlier entry before that.
\<close>

lemma hourly_choice_by_whole_minutes:
  assumes "hourBranch p t" and "hourly p = Some (xs @ [prevHour, nextHour] @ ys)"
    and "\<forall>x\<in>set xs. dt x \<le> t" and "dt prevHour \<le> t" and "t < dt nextHour"
  shows "selectWeatherUpTo48Hours ar p t
           = Inr (formatHourlyData ar (if 1860 \<le> t - dt prevHour then nextHour else prevHour))"
proof -
  from assms(3,4) have "\<forall>x\<in>set (xs @ [prevHour]). dt x \<le> t" by simp
  from hourScan_straddle [OF this assms(5), of ys None]
  have "hourScan (xs @ [prevHour, nextHour] @ ys) t None = (Some prevHour, Some nextHour)"
    by simp
  then have "hourChoice (hourScan (xs @ [prevHour, nextHour] @ ys) t None) t
             = Some (if 1860 \<le> t - dt prevHour then nextHour else prevHour)"
    by (simp add: hourChoice_def Let_def minutes_over_30)
  with assms(1,2) show ?thesis
    by (intro hour_branch_select [of p t "xs @ [prevHour, nextHour] @ ys"]) simp_all
qed

text \<open>
  Claim C7 does not hold of the code.  Now is 1000, the hourly entries are at 8200 and
  11800, and the target is 10001, more than one hour ahead: the two entries straddle the
  target, which is 1801 seconds (more than 30 minutes) past the earlier entry and 1799
  seconds before the later one.  The claim, and the nearest-hour rule that the comment of
  the branch announces, give the later entry; the code returns the earlier one, because it
  floors the elapsed time to whole minutes before it compares with 30.
\<close>

theorem hourly_choice_30_minutes_1_second:
  "3600 < 10001 - dt (current examplePayload)
   \<and> hourly examplePayload
       = Some [exampleConditions\<lparr>dt := 8200\<rparr>, exampleConditions\<lparr>dt := 11800, temp := 7\<rparr>]
   \<and> 10001 - dt (exampleConditions\<lparr>dt := 8200\<rparr>) = 1801
   \<and> dt (exampleConditions\<lparr>dt := 11800, temp := 7\<rparr>) - 10001 = 1799
   \<and> selectWeatherUpTo48Hours ar examplePayload 10001
       = Inr (formatHourlyData ar (exampleConditions\<lparr>dt := 8200\<rparr>))
   \<and> selectWeatherUpTo48Hours ar examplePayload 10001
       \<noteq> Inr (formatHourlyData ar (exampleConditions\<lparr>dt := 11800, temp := 7\<rparr>))"
proof -
  let ?e = "exampleConditions\<lparr>dt := 8200\<rparr>" and ?l = "exampleConditions\<lparr>dt := 11800, temp := 7\<rparr>"
  have h: "hourly examplePayload = Some ([] @ [?e, ?l] @ [])"
    by (simp add: examplePayload_def)
  have b: "hourBranch examplePayload 10001" "3600 < 10001 - dt (current examplePayload)"
    by (simp_all add: hourBranch_def examplePayload_def exampleConditions_def)
  have s: "selectWeatherUpTo48Hours ar examplePayload 10001 = Inr (formatHourlyData ar ?e)"
    using hourly_choice_by_whole_minutes [OF b(1) h, of ar] by simp
  have n: "formatHourlyData ar ?e \<noteq> formatHourlyData ar ?l"
  proof
    assume "formatHourlyData ar ?e = formatHourlyData ar ?l"
    then have "timestamp (formatHourlyData ar ?e) = timestamp (formatHourlyData ar ?l)"
      by simp
    then show False by (simp add: formatHourlyData_def)
  qed
  show ?thesis
    using h b(2) s n by simp
qed

section \<open>Units of the samples\<close>

lemma builtFrom_instant: "builtFrom ar c (instantSample ar c)"
  by (simp add: builtFrom_def instantSample_def toKmh_def toKm_def Let_def)

lemma builtFrom_hourly: "builtFrom ar c (formatHourlyData ar c)"
  by (simp add: builtFrom_def formatHourlyData_def toKmh_def toKm_def)

lemma builtFrom_current: "builtFrom ar c (formatCurrent ar c n)"
  by (simp add: builtFrom_def formatCurrent_def toKmh_def toKm_def)

lemma builtFrom_minute:
  assumes "minuteSample ar p diff mins = Inr s" and "300 \<le> diff"
  shows "builtFrom ar
           (if diff div 60 < 30 then current p
            else case js_nth (case hourly p of None \<Rightarrow> [] | Some hs \<Rightarrow> hs) 1 of
                   None \<Rightarrow> current p
                 | Some h \<Rightarrow> h) s"
proof -
  have n: "(nat (diff div 60) < 30) = (diff div 60 < 30)"
    using assms(2) by linarith
  show ?thesis
    using assms(1)
    by (auto simp: minuteSample_def Let_def n builtFrom_def toKmh_def toKm_def js_nth_def
        split: option.splits if_splits)
qed

lemma currentFallback_built:
  "currentFallback ar p = Inr s \<Longrightarrow> builtFrom ar (current p) s"
  by (auto simp: currentFallback_def builtFrom_current split: option.splits)

lemma builtFromDay_daily: "builtFromDay ar d (dailyData ar d)"
  by (simp add: builtFromDay_def dailyData_def toKmh_def)

lemma upTo48_built:
  assumes "selectWeatherUpTo48Hours ar p t = Inr s"
  shows "builtFrom ar (sourceUpTo48 p t) s"
proof (cases "t - dt (current p) < 300")
  case True
  with assms have "s = instantSample ar (current p)"
    by (simp add: selectWeatherUpTo48Hours_def Let_def)
  with True show ?thesis
    by (simp add: sourceUpTo48_def Let_def builtFrom_instant)
next
  case False
  note far = this
  show ?thesis
  proof (cases "t - dt (current p) \<le> 3600 \<and> minutely p \<noteq> None")
    case True
    then obtain mins where mins: "minutely p = Some mins" by auto
    with assms far True have "minuteSample ar p (t - dt (current p)) mins = Inr s"
      by (simp add: selectWeatherUpTo48Hours_def Let_def)
    from builtFrom_minute [OF this] far True show ?thesis
      by (simp add: sourceUpTo48_def Let_def)
  next
    case False
    then have m: "(if 300 \<le> t - dt (current p) \<and> t - dt (current p) \<le> 3600
                   then minutely p else None) = None"
      by auto
    show ?thesis
    proof (cases "hourly p")
      case None
      with assms far m show ?thesis
        by (simp add: selectWeatherUpTo48Hours_def Let_def currentFallback_def)
    next
      case (Some hs)
      show ?thesis
      proof (cases "hourChoice (hourScan hs t None) t")
        case None
        with assms far m Some have "currentFallback ar p = Inr s"
          by (simp add: selectWeatherUpTo48Hours_def Let_def split: if_splits)
        from currentFallback_built [OF this] far False Some None show ?thesis
          by (auto simp: sourceUpTo48_def Let_def)
      next
        case (Some chosen)
        have ne: "hs \<noteq> []"
        proof
          assume "hs = []"
          with Some show False by (simp add: hourChoice_def)
        qed
        with assms far m \<open>hourly p = Some hs\<close> Some have "s = formatHourlyData ar chosen"
          by (simp add: selectWeatherUpTo48Hours_def Let_def)
        with far False \<open>hourly p = Some hs\<close> Some show ?thesis
          by (auto simp: sourceUpTo48_def Let_def builtFrom_hourly)
      qed
    qed
  qed
qed

lemma after48_built:
  assumes "selectWeatherAfter48Hours ar p t = Inr s"
  shows "case sourceAfter48 p t of
           Some d \<Rightarrow> builtFromDay ar d s
         | None \<Rightarrow> builtFrom ar (current p) s"
  using assms
  by (auto simp: selectWeatherAfter48Hours_def sourceAfter48_def currentFallback_built
      builtFromDay_daily split: option.splits list.splits)

text \<open>
  Claim C9, as stated, fails.  For a current record with a wind speed of 1 m/s the instant
  sample has the wind speed 4, not 3.6: the code rounds the product to an integer.  And the
  sample of the day band has no visibility at all.
\<close>

theorem wind_speed_is_rounded:
  "selectWeatherUpTo48Hours exactArith examplePayload 1000
     = Inr (instantSample exactArith exampleConditions)
   \<and> wind_speed exampleConditions = Some 1
   \<and> windSpeed (instantSample exactArith exampleConditions) = 4
   \<and> real_of_int (windSpeed (instantSample exactArith exampleConditions)) \<noteq> 1 * 36 / 10
   \<and> selectWeatherAfter48Hours exactArith examplePayload 180000
     = Inr (dailyData exactArith exampleDay)
   \<and> visibility (dailyData exactArith exampleDay) = None"
  by code_simp

text \<open>
  Claim C9, amended.  Every sample built for a target within 48 hours copies the
  temperature, the humidity and the description of its source record (the current record
  or the hourly entry of its band), has as wind speed the wind speed of that record (0 when
  absent) times 3.6, rounded to the nearest integer by \<open>Math.round\<close>, and as visibility the
  visibility of that record (0 when absent) divided by 1000.  A sample built for a target
  beyond 48 hours comes from the closest daily entry when the daily array is present and
  not empty: it copies the day temperature, its wind speed is rounded in the same way, and
  it has no visibility; otherwise it is such a sample of the current record.
\<close>

theorem samples_round_wind_speed:
  "(selectWeatherUpTo48Hours ar p t = Inr s \<longrightarrow> builtFrom ar (sourceUpTo48 p t) s)
   \<and> (selectWeatherAfter48Hours ar p t = Inr s \<longrightarrow>
        (case sourceAfter48 p t of
           Some d \<Rightarrow> builtFromDay ar d s
         | None \<Rightarrow> builtFrom ar (current p) s))"
  using upTo48_built [of ar p t s] after48_built [of ar p t s] by blast

theorem samples_round_wind_speed_witness:
  "selectWeatherUpTo48Hours exactArith
       (examplePayload\<lparr>hourly := Some [exampleConditions
            \<lparr>dt := 8200, wind_speed := Some 5, src_visibility := Some 4000\<rparr>]\<rparr>) 9000
     = Inr (formatHourlyData exactArith
              (exampleConditions\<lparr>dt := 8200, wind_speed := Some 5, src_visibility := Some 4000\<rparr>))
   \<and> sourceUpTo48
       (examplePayload\<lparr>hourly := Some [exampleConditions
            \<lparr>dt := 8200, wind_speed := Some 5, src_visibility := Some 4000\<rparr>]\<rparr>) 9000
     = exampleConditions\<lparr>dt := 8200, wind_speed := Some 5, src_visibility := Some 4000\<rparr>
   \<and> wind_speed (current examplePayload) = Some 1
   \<and> windSpeed (formatHourlyData exactArith
         (exampleConditions\<lparr>dt := 8200, wind_speed := Some 5, src_visibility := Some 4000\<rparr>)) = 18
   \<and> visibility (formatHourlyData exactArith
         (exampleConditions\<lparr>dt := 8200, wind_speed := Some 5, src_visibility := Some 4000\<rparr>))
       = Some 4
   \<and> selectWeatherAfter48Hours exactArith examplePayload 180000
     = Inr (dailyData exactArith exampleDay)
   \<and> sourceAfter48 examplePayload 180000 = Some exampleDay
   \<and> windSpeed (dailyData exactArith exampleDay) = 4
   \<and> visibility (dailyData exactArith exampleDay) = None"
proof -
  let ?l = "exampleConditions\<lparr>dt := 8200, wind_speed := Some 5, src_visibility := Some 4000\<rparr>"
  let ?p = "examplePayload\<lparr>hourly := Some [?l]\<rparr>"
  have a: "selectWeatherUpTo48Hours exactArith ?p 9000 = Inr (formatHourlyData exactArith ?l)"
    by code_simp
  have b: "selectWeatherAfter48Hours exactArith examplePayload 180000
             = Inr (dailyData exactArith exampleDay)"
    by code_simp
  have sa: "sourceUpTo48 ?p 9000 = ?l"
    by code_simp
  have sb: "sourceAfter48 examplePayload 180000 = Some exampleDay"
    by code_simp
  have c: "wind_speed (current examplePayload) = Some 1"
    by (simp add: examplePayload_def exampleConditions_def)
  from samples_round_wind_speed [of exactArith ?p 9000 "formatHourlyData exactArith ?l",
      THEN conjunct1, rule_format, OF a]
  have 1: "windSpeed (formatHourlyData exactArith ?l) = 18
           \<and> visibility (formatHourlyData exactArith ?l) = Some 4"
    unfolding sa
    by (simp add: builtFrom_def exampleConditions_def exactArith_def js_or_def Math_round_def)
  from samples_round_wind_speed [of exactArith examplePayload 180000
      "dailyData exactArith exampleDay", THEN conjunct2, rule_format, OF b]
  have 2: "windSpeed (dailyData exactArith exampleDay) = 4
           \<and> visibility (dailyData exactArith exampleDay) = None"
    unfolding sb
    by (simp add: builtFromDay_def exampleDay_def exactArith_def js_or_def Math_round_def)
  show ?thesis
    using a b sa sb c 1 2 by (simp only: simp_thms)
qed

section \<open>The fallback to the demo point\<close>

lemma Math_round_bounds:
  assumes "of_int a \<le> x" "x \<le> of_int b"
  shows "a \<le> Math_round x \<and> Math_round x \<le> b"
proof -
  have "of_int a \<le> x + 1 / 2" using assms(1) by simp
  then have "a \<le> \<lfloor>x + 1 / 2\<rfloor>" by (simp add: le_floor_iff)
  moreover have "x + 1 / 2 < of_int b + 1" using assms(2) by simp
  then have "\<lfloor>x + 1 / 2\<rfloor> \<le> b" by (simp add: floor_le_iff)
  ultimately show ?thesis by (simp add: Math_round_def)
qed

lemma demo_description:
  fixes r :: real
  assumes "0 \<le> r" "r < 1"
  shows "\<not> \<lfloor>r * 4\<rfloor> < 0 \<and> (\<exists>d\<in>set demoDescriptions. js_nth demoDescriptions (nat \<lfloor>r * 4\<rfloor>) = Some d)"
proof -
  have "0 \<le> \<lfloor>r * 4\<rfloor>" using assms(1) by simp
  moreover have "\<lfloor>r * 4\<rfloor> < 4" using assms(2) by (simp add: floor_less_iff)
  ultimately have "nat \<lfloor>r * 4\<rfloor> < 4" "\<not> \<lfloor>r * 4\<rfloor> < 0"
    by linarith+
  moreover have "length demoDescriptions = 4"
    by (simp add: demoDescriptions_def)
  ultimately have "nat \<lfloor>r * 4\<rfloor> < length demoDescriptions" "\<not> \<lfloor>r * 4\<rfloor> < 0"
    by simp_all
  then show ?thesis
    by (auto simp: js_nth_def)
qed

lemma affine_bounds:
  fixes r a c :: real
  assumes "0 \<le> r" "r \<le> 1" "0 \<le> c"
  shows "a \<le> a + r * c \<and> a + r * c \<le> a + c"
proof -
  have "0 \<le> r * c" using assms by simp
  moreover have "r * c \<le> c" using mult_right_mono [OF assms(2,3)] by simp
  ultimately show ?thesis by simp
qed

lemma Math_round_affine_bounds:
  fixes r a c :: real
  assumes "0 \<le> r" "r \<le> 1" "0 \<le> c" "of_int lo \<le> a" "a + c \<le> of_int hi"
  shows "lo \<le> Math_round (a + r * c) \<and> Math_round (a + r * c) \<le> hi"
  using affine_bounds [OF assms(1-3), of a] assms(4,5)
  by (intro Math_round_bounds) linarith+

lemma generateDemoWeatherPoint_in_range:
  assumes r: "\<forall>n. 0 \<le> random n \<and> random n < 1"
  shows "demoInRange (generateDemoWeatherPoint random nowMs)"
proof -
  have b: "\<And>n. 0 \<le> random n" "\<And>n. random n \<le> 1"
    using r by (auto intro: less_imp_le)
  from demo_description [of "random 1"] r
  obtain d where d: "\<not> \<lfloor>random 1 * 4\<rfloor> < 0" "d \<in> set demoDescriptions"
    "js_nth demoDescriptions (nat \<lfloor>random 1 * 4\<rfloor>) = Some d"
    by blast
  have t: "10 \<le> 10 + random 0 * 15 \<and> 10 + random 0 * 15 \<le> 25"
    using affine_bounds [where r = "random 0" and c = 15 and a = 10] b by simp
  have h: "50 \<le> 50 + random 2 * 40 \<and> 50 + random 2 * 40 \<le> 90"
    using affine_bounds [where r = "random 2" and c = 40 and a = 50] b by simp
  have v: "8 \<le> 8 + random 4 * 7 \<and> 8 + random 4 * 7 \<le> 15"
    using affine_bounds [where r = "random 4" and c = 7 and a = 8] b by simp
  have p: "0 \<le> random 6 * 5 \<and> random 6 * 5 \<le> 5"
    using affine_bounds [where r = "random 6" and c = 5 and a = 0] b by simp
  have w: "5 \<le> Math_round (5 + random 3 * 20) \<and> Math_round (5 + random 3 * 20) \<le> 25"
    using Math_round_affine_bounds [where r = "random 3" and c = 20 and a = 5 and lo = 5 and hi = 25] b
    by simp
  have rp: "0 \<le> Math_round (random n * 100) \<and> Math_round (random n * 100) \<le> 100" for n
    using Math_round_affine_bounds [where r = "random n" and c = 100 and a = 0 and lo = 0 and hi = 100] b
    by simp
  have fl: "10 \<le> Math_round (10 + random n * 15) \<and> Math_round (10 + random n * 15) \<le> 25" for n
    using Math_round_affine_bounds [where r = "random n" and c = 15 and a = 10 and lo = 10 and hi = 25] b
    by simp
  have g: "8 \<le> Math_round (8 + random n * 17) \<and> Math_round (8 + random n * 17) \<le> 25" for n
    using Math_round_affine_bounds [where r = "random n" and c = 17 and a = 8 and lo = 8 and hi = 25] b
    by simp
  have dg: "0 \<le> Math_round (random n * 360) \<and> Math_round (random n * 360) \<le> 360" for n
    using Math_round_affine_bounds [where r = "random n" and c = 360 and a = 0 and lo = 0 and hi = 360] b
    by simp
  show ?thesis
    unfolding demoInRange_def generateDemoWeatherPoint_def Let_def
    using d t h v p w rp fl g dg
    by simp
qed

lemma getWeatherAtPoint_fallback:
  assumes "retrievalFails ar fetched (case targetTime of Some t \<Rightarrow> t | None \<Rightarrow> nowMs div 1000)"
  shows "getWeatherAtPoint ar fetched targetTime nowMs random = generateDemoWeatherPoint random nowMs"
  using assms
  by (auto simp: getWeatherAtPoint_def retrievalFails_def Let_def split: option.splits sum.splits)

text \<open>
  Claim C8.  \<open>getWeatherAlongRouteWithTiming\<close> returns one sample per waypoint and never
  throws.  For every waypoint whose weather retrieval fails (no payload from the network,
  or a selection that throws), the sample is the demo point of \<open>generateDemoWeatherPoint\<close>,
  and, \<open>Math.random\<close> returning numbers from 0 up to but not including 1, its fields are
  present and lie within the ranges of the generator.
\<close>

theorem failed_retrieval_gives_demo_point:
  assumes "\<forall>i n. 0 \<le> randoms i n \<and> randoms i n < 1"
    and "r = getWeatherAlongRouteWithTiming ar fetched clock randoms waypointsWithTiming"
  shows "length r = length waypointsWithTiming
       \<and> (\<forall>i<length waypointsWithTiming.
            retrievalFails ar (fetched i) (estimatedArrivalTime (waypointsWithTiming ! i)) \<longrightarrow>
            r ! i = generateDemoWeatherPoint (randoms i) (clock i) \<and> demoInRange (r ! i))"
proof (intro conjI allI impI)
  show "length r = length waypointsWithTiming"
    by (simp add: assms(2) getWeatherAlongRouteWithTiming_def)
next
  fix i
  assume i: "i < length waypointsWithTiming"
    and f: "retrievalFails ar (fetched i) (estimatedArrivalTime (waypointsWithTiming ! i))"
  have "r ! i = getWeatherAtPoint ar (fetched i) (Some (estimatedArrivalTime (waypointsWithTiming ! i)))
                  (clock i) (randoms i)"
    using i by (simp add: assms(2) getWeatherAlongRouteWithTiming_def nth_enumerate_eq)
  with f show g: "r ! i = generateDemoWeatherPoint (randoms i) (clock i)"
    by (simp add: getWeatherAtPoint_fallback)
  from assms(1) have "\<forall>n. 0 \<le> randoms i n \<and> randoms i n < 1" by simp
  from generateDemoWeatherPoint_in_range [OF this] show "demoInRange (r ! i)"
    by (simp add: g)
qed

theorem failed_retrieval_gives_demo_point_witness:
  "retrievalFails exactArith None 5033
   \<and> retrievalFails exactArith (Some (examplePayload\<lparr>hourly := None\<rparr>)) 10000
   \<and> getWeatherAlongRouteWithTiming exactArith
         (\<lambda>i. if i = 0 then None else Some (examplePayload\<lparr>hourly := None\<rparr>))
         (\<lambda>i. 1234567) (\<lambda>i n. 1 / 2)
         [\<lparr>lat = 1, lng = 2, distance = Some 0, waypoint_type = ''origin'',
           estimatedArrivalTime = 5033, progress = 0\<rparr>,
          \<lparr>lat = 3, lng = 4, distance = Some 9, waypoint_type = ''destination'',
           estimatedArrivalTime = 10000, progress = 1\<rparr>] ! 1
       = generateDemoWeatherPoint (\<lambda>n. 1 / 2) 1234567
   \<and> demoInRange (generateDemoWeatherPoint (\<lambda>n. 1 / 2) 1234567)
   \<and> temperature (generateDemoWeatherPoint (\<lambda>n. 1 / 2) 1234567) = 35 / 2"
proof -
  let ?f = "\<lambda>i::nat. if i = 0 then None else Some (examplePayload\<lparr>hourly := None\<rparr>)"
  let ?w = "[\<lparr>lat = 1, lng = 2, distance = Some 0, waypoint_type = ''origin'',
              estimatedArrivalTime = 5033, progress = 0\<rparr>,
             \<lparr>lat = 3, lng = 4, distance = Some 9, waypoint_type = ''destination'',
              estimatedArrivalTime = 10000, progress = 1\<rparr>]"
  have r: "\<forall>i n. 0 \<le> (\<lambda>(i::nat) (n::nat). 1 / 2 :: real) i n \<and> (\<lambda>(i::nat) (n::nat). 1 / 2 :: real) i n < 1"
    by simp
  have f0: "retrievalFails exactArith None 5033"
    by (simp add: retrievalFails_def)
  have f1: "retrievalFails exactArith (Some (examplePayload\<lparr>hourly := None\<rparr>)) 10000"
    by code_simp
  have i: "1 < length ?w" by simp
  have f1': "retrievalFails exactArith (?f 1) (estimatedArrivalTime (?w ! 1))"
    using f1 by simp
  from failed_retrieval_gives_demo_point [OF r refl, of exactArith ?f "\<lambda>i. 1234567" ?w,
      THEN conjunct2, rule_format, OF i f1']
  have d: "getWeatherAlongRouteWithTiming exactArith ?f (\<lambda>i. 1234567) (\<lambda>i n. 1 / 2) ?w ! 1
             = generateDemoWeatherPoint (\<lambda>n. 1 / 2) 1234567"
    and g: "demoInRange (generateDemoWeatherPoint (\<lambda>n. 1 / 2) 1234567)"
    by auto
  have t: "temperature (generateDemoWeatherPoint (\<lambda>n. 1 / 2) 1234567) = 35 / 2"
    by (simp add: generateDemoWeatherPoint_def Let_def)
  show ?thesis
    using f0 f1 d g t by (simp only: simp_thms)
qed


section \<open>Deduplication of the waypoints\<close>

lemma deduplicateWaypoints_foldl:
  "deduplicateWaypoints numStr ws = fst (foldl (dedupStep numStr) ([], {}) ws)"
  by (simp add: deduplicateWaypoints_def)

lemma dedupStep_seen:
  "snd (dedupStep numStr (u, s) w)
     = (if isEndpoint w then s else insert (cleanLocationKey numStr w) s)"
  by (auto simp: dedupStep_def Let_def insert_absorb split: option.splits)

lemma seen_invariant:
  "snd (foldl (dedupStep numStr) ([], {}) ws) = seenKeys numStr ws"
proof (induction ws rule: rev_induct)
  case Nil
  show ?case by (simp add: seenKeys_def)
next
  case (snoc w ws)
  obtain u s where us: "foldl (dedupStep numStr) ([], {}) ws = (u, s)"
    by (cases "foldl (dedupStep numStr) ([], {}) ws")
  with snoc have s: "s = seenKeys numStr ws" by simp
  show ?case
    by (simp add: us dedupStep_seen s) (auto simp: seenKeys_def)
qed

lemma dedupStep_kept:
  "fst (dedupStep numStr (u, s) w)
     = u @ (if isEndpoint w then [w]
            else if cleanLocationKey numStr w \<in> s
            then (case find (\<lambda>p. prevCleanKey p = cleanLocationKey numStr w) u of
                    None \<Rightarrow> []
                  | Some p \<Rightarrow> if \<bar>distanceFromStart w - distanceFromStart p\<bar> > 2000 then [w] else [])
            else [w])"
  by (auto simp: dedupStep_def Let_def split: option.splits)

lemma deduplicateWaypoints_snoc:
  "deduplicateWaypoints numStr (ws @ [w])
     = deduplicateWaypoints numStr ws @ (if keeps numStr ws w then [w] else [])"
proof -
  obtain u s where us: "foldl (dedupStep numStr) ([], {}) ws = (u, s)"
    by (cases "foldl (dedupStep numStr) ([], {}) ws")
  have s: "s = seenKeys numStr ws"
    using seen_invariant [of numStr ws] by (simp add: us)
  have u: "u = deduplicateWaypoints numStr ws"
    by (simp add: deduplicateWaypoints_foldl us)
  show ?thesis
    unfolding deduplicateWaypoints_foldl [of numStr "ws @ [w]"] foldl_append foldl.simps us
      dedupStep_kept
    by (simp add: keeps_def s u split: option.splits)
qed

lemma endpoints_retained:
  "filter isEndpoint (deduplicateWaypoints numStr ws) = filter isEndpoint ws"
proof (induction ws rule: rev_induct)
  case Nil
  show ?case by (simp add: deduplicateWaypoints_def)
next
  case (snoc w ws)
  then show ?case
    by (simp add: deduplicateWaypoints_snoc keeps_def)
qed

lemma ex_keys:
  "cleanLocationKey exampleNumStr (examplePoint ty ''B'' d) = js_str ''B''"
  "prevCleanKey (examplePoint ty ''B'' d) = js_str ''B''"
  "isEndpoint (examplePoint ty n d) = (ty = ''origin'' \<or> ty = ''destination'')"
  "distanceFromStart (examplePoint ty n d) = d"
  by (simp_all add: cleanLocationKey_def prevCleanKey_def examplePoint_def
      str_or_def cleanKey_def trim_def js_str_def glyphClass_def isSpace_def isEndpoint_def)

lemma nameless_keys:
  "cleanLocationKey exampleNumStr (namelessPoint d) = js_str ''1_2''"
  "prevCleanKey (namelessPoint d) = []"
  "\<not> isEndpoint (namelessPoint d)"
  "distanceFromStart (namelessPoint d) = d"
  by (simp_all add: cleanLocationKey_def prevCleanKey_def namelessPoint_def examplePoint_def
      exampleNumStr_def str_or_def cleanKey_def trim_def js_str_def glyphClass_def isSpace_def
      isEndpoint_def)

text \<open>
  Claim C3: the code departs from it, and from its own comments (``keep if it's
  significantly different in distance'', ``far from the previous same-location waypoint'').
  The waypoint that a waypoint with a key already seen is compared with is the result of
  \<open>uniqueWaypoints.find\<close>: the first waypoint kept whose name cleans to the key, not the
  waypoint with the same key kept last, and no waypoint at all when the key is the one made
  of the coordinates.  Three intermediate waypoints named \<open>B\<close> at 0 m, 3000 m and 3500 m are
  all kept, although the third is 500 m from the second, which has the same key and was
  kept just before.  And of two intermediate waypoints without a name at the same
  coordinates, 5000 m apart, the second is dropped.
\<close>

theorem deduplicateWaypoints_compares_with_first_match:
  "deduplicateWaypoints exampleNumStr
       [examplePoint ''intermediate'' ''B'' 0, examplePoint ''intermediate'' ''B'' 3000]
     = [examplePoint ''intermediate'' ''B'' 0, examplePoint ''intermediate'' ''B'' 3000]
   \<and> \<not> isEndpoint (examplePoint ''intermediate'' ''B'' 3500)
   \<and> cleanLocationKey exampleNumStr (examplePoint ''intermediate'' ''B'' 3500)
       = cleanLocationKey exampleNumStr (examplePoint ''intermediate'' ''B'' 3000)
   \<and> \<bar>distanceFromStart (examplePoint ''intermediate'' ''B'' 3500)
        - distanceFromStart (examplePoint ''intermediate'' ''B'' 3000)\<bar> = 500
   \<and> deduplicateWaypoints exampleNumStr
       [examplePoint ''intermediate'' ''B'' 0, examplePoint ''intermediate'' ''B'' 3000,
        examplePoint ''intermediate'' ''B'' 3500]
     = [examplePoint ''intermediate'' ''B'' 0, examplePoint ''intermediate'' ''B'' 3000,
        examplePoint ''intermediate'' ''B'' 3500]
   \<and> \<not> isEndpoint (namelessPoint 5000)
   \<and> cleanLocationKey exampleNumStr (namelessPoint 5000)
       = cleanLocationKey exampleNumStr (namelessPoint 0)
   \<and> \<bar>distanceFromStart (namelessPoint 5000) - distanceFromStart (namelessPoint 0)\<bar> = 5000
   \<and> deduplicateWaypoints exampleNumStr [namelessPoint 0, namelessPoint 5000]
     = [namelessPoint 0]"
  by (simp add: ex_keys nameless_keys deduplicateWaypoints_def dedupStep_def Let_def js_str_def)


end
